theory Spec2Isabelle
  imports Main
begin

text \<open>
  A shallow embedding of the commerce backend: the Stripe service
  (\<open>services/stripe.service.ts\<close>), the storage service, the Customer model, the
  authentication and validation middleware, and the auth, customer and stripe
  controllers with the payment routes. An \<open>async\<close> function is a function from the
  world before the call to its result, a value or the exception thrown, and the world
  after it. Not embedded, since no property below is about them: the two listing
  endpoints (\<open>listInvoices\<close>, \<open>listPaymentMethods\<close>) and their controllers, the
  signed-URL and file-exists helpers, \<open>optionalAuth\<close>, the rate limiters, the upload
  filter and the backup service.
\<close>

section \<open>Exceptions and external objects\<close>

text \<open>
  Every value the TypeScript code throws is one of three kinds: an \<open>AppError\<close> (the
  application's own class, built as \<open>new AppError(message, statusCode)\<close>), an error
  raised by the Stripe SDK (an object with a \<open>type\<close> and a \<open>message\<close>), or any other
  exception (a database, storage or library error), of which only the class name and the
  message matter here.
\<close>

datatype exn =
    AppError string nat
  | StripeError string string
  | Exception string string

fun error_type :: "exn \<Rightarrow> string option" where
  "error_type (StripeError t m) = Some t"
| "error_type (AppError m s) = None"
| "error_type (Exception n m) = None"

fun error_message :: "exn \<Rightarrow> string" where
  "error_message (StripeError t m) = m"
| "error_message (AppError m s) = m"
| "error_message (Exception n m) = m"

text \<open>
  The objects the Stripe SDK returns (customer, invoice, payment method, payment intent)
  are read by the code field by field; one record carries every field that is read.
  A field that is \<open>null\<close> is \<open>None\<close>.
\<close>

record stripe_object =
  obj_id :: string
  obj_customer :: "string option"
  obj_number :: "string option"
  obj_status :: "string option"
  obj_amount_paid :: int
  obj_currency :: string
  obj_created :: int
  hosted_invoice_url :: "string option"
  invoice_pdf :: "string option"
  payment_intent :: "string option"

text \<open>
  The calls made to the SDK, with the parameters the code passes. \<open>CustomersCreate\<close>
  carries email, name, phone and \<open>address.line1\<close> (the constant \<open>metadata\<close> is left
  out). \<open>CustomersUpdate\<close> is \<open>stripe.customers.update\<close> with the customer id
  (\<open>None\<close> when the caller passes \<open>undefined\<close>), \<open>name\<close>, \<open>phone\<close> and
  \<open>address.line1\<close>; \<open>CustomersUpdateDefault\<close> is the same endpoint with
  \<open>invoice_settings.default_payment_method\<close>. \<open>InvoiceItemsCreate\<close> carries customer,
  amount, currency, description and quantity (\<open>None\<close> when the parameter is not
  passed). \<open>InvoicesCreate\<close> always carries the same collection settings
  (\<open>auto_advance\<close>, \<open>charge_automatically\<close>, 3-D Secure on cards), so only the
  customer is a parameter.
\<close>

datatype stripe_call =
    CustomersCreate string string "string option" "string option"
  | CustomersUpdate "string option" "string option" "string option" "string option"
  | CustomersUpdateDefault string string
  | CustomersDel string
  | PaymentMethodsAttach string string
  | PaymentMethodsRetrieve string
  | PaymentMethodsDetach string
  | InvoiceItemsCreate string int string string "int option"
  | InvoicesCreate string
  | InvoicesFinalizeInvoice string
  | InvoicesPay string string
  | InvoicesRetrieve string
  | InvoicesSendInvoice string
  | PaymentIntentsRetrieve "string option"

type_synonym stripe_event = "stripe_call \<times> (exn + stripe_object)"

datatype log_entry =
    LogError string exn
  | LogInfo string
  | LogDebug string exn

section \<open>The Customer model\<close>

text \<open>
  A stored customer, with the fields of the schema (the timestamps are not modelled).
  \<open>c_password\<close> is \<open>None\<close> in a document loaded with \<open>select('-password')\<close>;
  \<open>stripeCustomerId\<close> and \<open>profilePictureUrl\<close> are \<open>None\<close> when the field is
  absent (\<open>undefined\<close>).
\<close>

record customer =
  c_id :: string
  c_name :: string
  c_email :: string
  c_address :: string
  c_phone :: string
  c_password :: "string option"
  stripeCustomerId :: "string option"
  profilePictureUrl :: "string option"

text \<open>
  A document in memory: the fields, whether it has never been saved, and the paths
  assigned since it was built or loaded (\<open>isModified(path)\<close>).
\<close>

record document =
  doc :: customer
  isNew :: bool
  modifiedPaths :: "string list"

datatype mongo_op =
    FindOne string
  | FindById string
  | Save customer
  | FindByIdAndDelete string

datatype gcs_call =
    FileExists string
  | FileDelete string
  | FileUpload string string

type_synonym gcs_event = "gcs_call \<times> (exn + bool)"

section \<open>The environment and the world\<close>

text \<open>
  Nothing outside the repository is modelled by a fixed behaviour; it is a parameter.
  \<^item> \<open>stripe\<close>: the payment gateway. The answer to a call may depend on every call
    made before it, so it is a function of the history and the call.
  \<^item> \<open>mongo_fault\<close>: whether the database layer rejects an operation on the current
    collection (a validator of the schema, a cast error, a lost connection), and with
    which error. The unique indexes are modelled below, not here.
  \<^item> \<open>new_ObjectId\<close>: the \<open>_id\<close> given to a new document.
  \<^item> \<open>bcrypt_hash\<close>, \<open>bcrypt_compare\<close>, \<open>jwt_sign\<close>, \<open>jwt_verify\<close>: the
    two libraries; \<open>jwt_sign id email\<close> signs the payload with the configured secret
    and expiry, \<open>jwt_verify\<close> returns the payload's id and email.
  \<^item> \<open>bucket_name\<close>: the storage bucket, \<open>None\<close> when storage is not configured;
    \<open>gcs\<close>: the storage service, like \<open>stripe\<close>.
  \<^item> \<open>date_now\<close>: the clock reading put into a file name.
  \<^item> \<open>string_to_number\<close>: JavaScript's \<open>Number\<close> on a string (\<open>None\<close> is NaN).
  \<^item> \<open>arrives_first\<close>: of the rejections of calls that run concurrently, the one
    that arrives first.
\<close>

record env =
  stripe :: "stripe_event list \<Rightarrow> stripe_call \<Rightarrow> exn + stripe_object"
  mongo_fault :: "customer list \<Rightarrow> mongo_op \<Rightarrow> exn option"
  new_ObjectId :: "customer list \<Rightarrow> string"
  bcrypt_hash :: "string \<Rightarrow> nat \<Rightarrow> exn + string"
  bcrypt_compare :: "string \<Rightarrow> string \<Rightarrow> exn + bool"
  jwt_sign :: "string \<Rightarrow> string \<Rightarrow> exn + string"
  jwt_verify :: "string \<Rightarrow> exn + string \<times> string"
  bucket_name :: "string option"
  gcs :: "gcs_event list \<Rightarrow> gcs_call \<Rightarrow> exn + bool"
  date_now :: string
  string_to_number :: "string \<Rightarrow> int option"
  arrives_first :: "exn list \<Rightarrow> exn"

record world =
  stripe_log :: "stripe_event list"
  logger :: "log_entry list"
  db :: "customer list"
  gcs_log :: "gcs_event list"

type_synonym 'a io = "world \<Rightarrow> (exn + 'a) \<times> world"

text \<open>
  \<open>and_then\<close> is \<open>await\<close> followed by the rest of the function, \<open>throw\<close> is
  \<open>throw\<close>, and \<open>try_catch\<close> is \<open>try { ... } catch (error) { ... }\<close>.
\<close>

definition return :: "'a \<Rightarrow> 'a io" where
  "return a w = (Inr a, w)"

definition throw :: "exn \<Rightarrow> 'a io" where
  "throw e w = (Inl e, w)"

definition and_then :: "'a io \<Rightarrow> ('a \<Rightarrow> 'b io) \<Rightarrow> 'b io" where
  "and_then m f w = (case m w of (Inl e, w') \<Rightarrow> (Inl e, w') | (Inr a, w') \<Rightarrow> f a w')"

definition try_catch :: "'a io \<Rightarrow> (exn \<Rightarrow> 'a io) \<Rightarrow> 'a io" where
  "try_catch m h w = (case m w of (Inl e, w') \<Rightarrow> h e w' | (Inr a, w') \<Rightarrow> (Inr a, w'))"

definition logger_error :: "string \<Rightarrow> exn \<Rightarrow> unit io" where
  "logger_error label e w = (Inr (), w\<lparr>logger := logger w @ [LogError label e]\<rparr>)"

definition logger_info :: "string \<Rightarrow> unit io" where
  "logger_info msg w = (Inr (), w\<lparr>logger := logger w @ [LogInfo msg]\<rparr>)"

definition stripe_request :: "env \<Rightarrow> stripe_call \<Rightarrow> stripe_object io" where
  "stripe_request E c w =
     (let r = stripe E (stripe_log w) c
      in (r, w\<lparr>stripe_log := stripe_log w @ [(c, r)]\<rparr>))"

text \<open>
  \<open>Promise.all(xs.map(f))\<close>: every call is issued, in the order of the list, also
  when an earlier one fails, and each settles. When all are fulfilled the result is the
  list of their values; otherwise \<open>Promise.all\<close> rejects with the rejection that
  arrives first, which the environment chooses among the rejections. The gateway answers
  the calls in the order they were issued.
\<close>

fun settle_all :: "'a io list \<Rightarrow> world \<Rightarrow> (exn + 'a) list \<times> world" where
  "settle_all [] w = ([], w)"
| "settle_all (m # ms) w =
     (case m w of (r, w') \<Rightarrow>
        (case settle_all ms w' of (rs, w'') \<Rightarrow> (r # rs, w'')))"

fun rejections :: "(exn + 'a) list \<Rightarrow> exn list" where
  "rejections [] = []"
| "rejections (Inl e # rs) = e # rejections rs"
| "rejections (Inr a # rs) = rejections rs"

fun fulfilled :: "(exn + 'a) list \<Rightarrow> 'a list" where
  "fulfilled [] = []"
| "fulfilled (Inl e # rs) = fulfilled rs"
| "fulfilled (Inr a # rs) = a # fulfilled rs"

definition first_rejection :: "env \<Rightarrow> exn \<Rightarrow> exn list \<Rightarrow> exn" where
  "first_rejection E e es =
     (if arrives_first E (e # es) \<in> set (e # es) then arrives_first E (e # es) else e)"

definition promise_all :: "env \<Rightarrow> 'a io list \<Rightarrow> 'a list io" where
  "promise_all E ms w =
     (case settle_all ms w of (rs, w') \<Rightarrow>
        (case rejections rs of
           [] \<Rightarrow> (Inr (fulfilled rs), w')
         | e # es \<Rightarrow> (Inl (first_rejection E e es), w')))"

section \<open>stripeService\<close>

record CreateCustomerData =
  cc_email :: string
  cc_name :: string
  cc_phone :: "string option"
  cc_address :: "string option"

record UpdateCustomerData =
  uc_name :: "string option"
  uc_phone :: "string option"
  uc_address :: "string option"

record PaymentData =
  pd_customerId :: string
  pd_paymentMethodId :: string
  pd_amount :: int
  pd_currency :: string
  pd_description :: "string option"
  pd_savePaymentMethod :: bool

record Item =
  item_amount :: int
  item_description :: string
  item_quantity :: "int option"

record PaymentWithItemsData =
  pi_customerId :: string
  pi_paymentMethodId :: string
  pi_items :: "Item list"
  pi_currency :: string
  pi_savePaymentMethod :: bool

record PaymentResult =
  res_invoice :: stripe_object
  res_paymentIntent :: stripe_object
  res_invoiceUrl :: "string option"
  res_invoicePdf :: "string option"

text \<open>\<open>data.address ? { line1: data.address } : undefined\<close>: the empty string is falsy.\<close>

fun address_line1 :: "string option \<Rightarrow> string option" where
  "address_line1 None = None"
| "address_line1 (Some a) = (if a = [] then None else Some a)"

text \<open>\<open>x || d\<close> on an optional string and on an optional number.\<close>

fun or_string :: "string option \<Rightarrow> string \<Rightarrow> string" where
  "or_string None d = d"
| "or_string (Some s) d = (if s = [] then d else s)"

fun or_number :: "int option \<Rightarrow> int \<Rightarrow> int" where
  "or_number None d = d"
| "or_number (Some n) d = (if n = 0 then d else n)"

definition createCustomer :: "env \<Rightarrow> CreateCustomerData \<Rightarrow> stripe_object io" where
  "createCustomer E data =
     try_catch
       (stripe_request E
          (CustomersCreate (cc_email data) (cc_name data) (cc_phone data)
             (address_line1 (cc_address data))))
       (\<lambda>error. and_then (logger_error ''Stripe create customer error:'' error)
          (\<lambda>_. throw (AppError ''Failed to create Stripe customer'' 500)))"

definition updateCustomer :: "env \<Rightarrow> string option \<Rightarrow> UpdateCustomerData \<Rightarrow> stripe_object io" where
  "updateCustomer E customerId data =
     try_catch
       (stripe_request E
          (CustomersUpdate customerId (uc_name data) (uc_phone data)
             (address_line1 (uc_address data))))
       (\<lambda>error. and_then (logger_error ''Stripe update customer error:'' error)
          (\<lambda>_. throw (AppError ''Failed to update Stripe customer'' 500)))"

definition deleteCustomer :: "env \<Rightarrow> string \<Rightarrow> unit io" where
  "deleteCustomer E customerId =
     try_catch
       (and_then (stripe_request E (CustomersDel customerId)) (\<lambda>_. return ()))
       (\<lambda>error. logger_error ''Stripe delete customer error:'' error)"

definition payment_error :: "string \<Rightarrow> exn \<Rightarrow> PaymentResult io" where
  "payment_error label error =
     and_then (logger_error label error)
       (\<lambda>_. if error_type error = Some ''StripeCardError''
             then throw (AppError (error_message error) 400)
             else throw (AppError ''Payment processing failed'' 500))"

definition attach_if_saving :: "env \<Rightarrow> bool \<Rightarrow> string \<Rightarrow> string \<Rightarrow> unit io" where
  "attach_if_saving E save paymentMethodId customerId =
     (if save
      then and_then (stripe_request E (PaymentMethodsAttach paymentMethodId customerId))
             (\<lambda>_. and_then (stripe_request E (CustomersUpdateDefault customerId paymentMethodId))
                (\<lambda>_. return ()))
      else return ())"

definition createPaymentWithInvoice :: "env \<Rightarrow> PaymentData \<Rightarrow> PaymentResult io" where
  "createPaymentWithInvoice E data =
     try_catch
       (and_then (attach_if_saving E (pd_savePaymentMethod data) (pd_paymentMethodId data)
                    (pd_customerId data))
       (\<lambda>_. and_then (stripe_request E
                (InvoiceItemsCreate (pd_customerId data) (pd_amount data) (pd_currency data)
                   (or_string (pd_description data) ''One-time payment'') None))
       (\<lambda>_. and_then (stripe_request E (InvoicesCreate (pd_customerId data)))
       (\<lambda>invoice. and_then (stripe_request E (InvoicesFinalizeInvoice (obj_id invoice)))
       (\<lambda>finalizedInvoice. and_then
              (stripe_request E (InvoicesPay (obj_id invoice) (pd_paymentMethodId data)))
       (\<lambda>paidInvoice. and_then
              (stripe_request E (PaymentIntentsRetrieve (payment_intent paidInvoice)))
       (\<lambda>paymentIntent. return
              \<lparr>res_invoice = paidInvoice, res_paymentIntent = paymentIntent,
               res_invoiceUrl = hosted_invoice_url paidInvoice,
               res_invoicePdf = invoice_pdf paidInvoice\<rparr>)))))))
       (payment_error ''Stripe payment error:'')"

definition createPaymentWithItems :: "env \<Rightarrow> PaymentWithItemsData \<Rightarrow> PaymentResult io" where
  "createPaymentWithItems E data =
     try_catch
       (and_then (attach_if_saving E (pi_savePaymentMethod data) (pi_paymentMethodId data)
                    (pi_customerId data))
       (\<lambda>_. and_then (promise_all E
                (map (\<lambda>item. stripe_request E
                        (InvoiceItemsCreate (pi_customerId data) (item_amount item)
                           (pi_currency data) (item_description item)
                           (Some (or_number (item_quantity item) 1))))
                   (pi_items data)))
       (\<lambda>_. and_then (stripe_request E (InvoicesCreate (pi_customerId data)))
       (\<lambda>invoice. and_then (stripe_request E (InvoicesFinalizeInvoice (obj_id invoice)))
       (\<lambda>finalizedInvoice. and_then
              (stripe_request E (InvoicesPay (obj_id invoice) (pi_paymentMethodId data)))
       (\<lambda>paidInvoice. and_then
              (stripe_request E (PaymentIntentsRetrieve (payment_intent paidInvoice)))
       (\<lambda>paymentIntent. return
              \<lparr>res_invoice = paidInvoice, res_paymentIntent = paymentIntent,
               res_invoiceUrl = hosted_invoice_url paidInvoice,
               res_invoicePdf = invoice_pdf paidInvoice\<rparr>)))))))
       (payment_error ''Stripe payment with items error:'')"

definition getInvoice :: "env \<Rightarrow> string \<Rightarrow> stripe_object io" where
  "getInvoice E invoiceId =
     try_catch (stripe_request E (InvoicesRetrieve invoiceId))
       (\<lambda>error. and_then (logger_error ''Stripe get invoice error:'' error)
          (\<lambda>_. throw (AppError ''Invoice not found'' 404)))"

definition sendInvoice :: "env \<Rightarrow> string \<Rightarrow> unit io" where
  "sendInvoice E invoiceId =
     try_catch
       (and_then (stripe_request E (InvoicesSendInvoice invoiceId)) (\<lambda>_. return ()))
       (\<lambda>error. and_then (logger_error ''Stripe send invoice error:'' error)
          (\<lambda>_. throw (AppError ''Failed to send invoice'' 500)))"

definition getPaymentMethod :: "env \<Rightarrow> string \<Rightarrow> stripe_object io" where
  "getPaymentMethod E paymentMethodId =
     try_catch (stripe_request E (PaymentMethodsRetrieve paymentMethodId))
       (\<lambda>error. and_then (logger_error ''Stripe get payment method error:'' error)
          (\<lambda>_. throw (AppError ''Payment method not found'' 404)))"

definition detachPaymentMethod :: "env \<Rightarrow> string \<Rightarrow> unit io" where
  "detachPaymentMethod E paymentMethodId =
     try_catch
       (and_then (stripe_request E (PaymentMethodsDetach paymentMethodId)) (\<lambda>_. return ()))
       (\<lambda>error. and_then (logger_error ''Stripe detach payment method error:'' error)
          (\<lambda>_. throw (AppError ''Failed to delete payment method'' 500)))"

section \<open>storageService\<close>

definition gcs_request :: "env \<Rightarrow> gcs_call \<Rightarrow> bool io" where
  "gcs_request E c w =
     (let r = gcs E (gcs_log w) c
      in (r, w\<lparr>gcs_log := gcs_log w @ [(c, r)]\<rparr>))"

definition isConfigured :: "env \<Rightarrow> bool" where
  "isConfigured E = (bucket_name E \<noteq> None)"

text \<open>
  \<open>url.split(sep)[1]\<close> for a separator that is not empty: \<open>None\<close> (\<open>undefined\<close>)
  when the separator does not occur, else the text between its first and its second
  occurrence.
\<close>

primrec after_first :: "string \<Rightarrow> string \<Rightarrow> string option" where
  "after_first sep [] = None"
| "after_first sep (c # cs) =
     (if take (length sep) (c # cs) = sep then Some (drop (length sep) (c # cs))
      else after_first sep cs)"

primrec before_first :: "string \<Rightarrow> string \<Rightarrow> string" where
  "before_first sep [] = []"
| "before_first sep (c # cs) =
     (if take (length sep) (c # cs) = sep then [] else c # before_first sep cs)"

definition split_second :: "string \<Rightarrow> string \<Rightarrow> string option" where
  "split_second sep s =
     (case after_first sep s of None \<Rightarrow> None | Some rest \<Rightarrow> Some (before_first sep rest))"

definition bucket_url :: "string \<Rightarrow> string" where
  "bucket_url b = ''https://storage.googleapis.com/'' @ b @ ''/''"

record File =
  originalname :: string
  mimetype :: string

definition uploadFile :: "env \<Rightarrow> File \<Rightarrow> string \<Rightarrow> string io" where
  "uploadFile E file path =
     (case bucket_name E of
        None \<Rightarrow> throw (AppError ''Storage service not configured'' 500)
      | Some b \<Rightarrow>
          (let fileName = path @ ''_'' @ date_now E @ ''_'' @ originalname file
           in try_catch
                (and_then (gcs_request E (FileUpload fileName (mimetype file)))
                   (\<lambda>_. return (bucket_url b @ fileName)))
                (\<lambda>error. and_then (logger_error ''Storage upload error:'' error)
                   (\<lambda>_. throw (AppError ''Failed to upload file'' 500)))))"

definition deleteFile :: "env \<Rightarrow> string \<Rightarrow> unit io" where
  "deleteFile E url =
     (case bucket_name E of
        None \<Rightarrow> return ()
      | Some b \<Rightarrow>
          try_catch
            (case split_second (bucket_url b) url of
               None \<Rightarrow> return ()
             | Some fileName \<Rightarrow>
                 if fileName = [] then return ()
                 else and_then (gcs_request E (FileExists fileName))
                        (\<lambda>exists. if exists
                           then and_then (gcs_request E (FileDelete fileName)) (\<lambda>_. return ())
                           else return ()))
            (\<lambda>error. logger_error ''Storage delete error:'' error))"

section \<open>The Customer schema: setters, hooks, methods, queries\<close>

text \<open>
  The setters of the schema, on ASCII: \<open>trim\<close> removes white space at both ends,
  \<open>lowercase\<close> maps \<open>A\<close>..\<open>Z\<close> to \<open>a\<close>..\<open>z\<close>.
\<close>

definition is_space :: "char \<Rightarrow> bool" where
  "is_space c = (c \<in> set [CHR '' '', CHR 0x09, CHR 0x0A, CHR 0x0B, CHR 0x0C, CHR 0x0D])"

definition trim :: "string \<Rightarrow> string" where
  "trim s = rev (dropWhile is_space (rev (dropWhile is_space s)))"

definition lower_char :: "char \<Rightarrow> char" where
  "lower_char c =
     (let n = (of_char c :: nat) in if 65 \<le> n \<and> n \<le> 90 then char_of (n + 32) else c)"

definition lowercase :: "string \<Rightarrow> string" where
  "lowercase s = map lower_char s"

text \<open>
  \<open>new Customer({name, email, address, phone, password, stripeCustomerId})\<close>: the
  schema's setters run (\<open>trim\<close> on the four text fields, \<open>lowercase\<close> on the email),
  and every path given is modified.
\<close>

definition new_Customer ::
  "env \<Rightarrow> customer list \<Rightarrow> string \<Rightarrow> string \<Rightarrow> string \<Rightarrow> string \<Rightarrow> string \<Rightarrow> string \<Rightarrow> document"
where
  "new_Customer E stored name email address phone password stripeId =
     \<lparr>doc = \<lparr>c_id = new_ObjectId E stored, c_name = trim name,
              c_email = lowercase (trim email), c_address = trim address,
              c_phone = trim phone, c_password = Some password,
              stripeCustomerId = Some stripeId, profilePictureUrl = None\<rparr>,
      isNew = True,
      modifiedPaths = [''name'', ''email'', ''address'', ''phone'', ''password'',
                       ''stripeCustomerId'']\<rparr>"

text \<open>The \<open>pre('save')\<close> hook: the password is hashed when, and only when, it is modified.\<close>

definition pre_save :: "env \<Rightarrow> document \<Rightarrow> exn + document" where
  "pre_save E d =
     (if ''password'' \<notin> set (modifiedPaths d) then Inr d
      else case c_password (doc d) of
             None \<Rightarrow> Inl (Exception ''Error'' ''data and salt arguments required'')
           | Some p \<Rightarrow>
               (case bcrypt_hash E p 10 of
                  Inl e \<Rightarrow> Inl e
                | Inr h \<Rightarrow> Inr (d\<lparr>doc := (doc d)\<lparr>c_password := Some h\<rparr>\<rparr>)))"

text \<open>
  What an update writes: the modified paths, and nothing else, of the stored document
  with the same \<open>_id\<close>.
\<close>

definition write_paths :: "document \<Rightarrow> customer \<Rightarrow> customer" where
  "write_paths d s =
     s\<lparr>c_name := (if ''name'' \<in> set (modifiedPaths d) then c_name (doc d) else c_name s),
       c_email := (if ''email'' \<in> set (modifiedPaths d) then c_email (doc d) else c_email s),
       c_address :=
         (if ''address'' \<in> set (modifiedPaths d) then c_address (doc d) else c_address s),
       c_phone := (if ''phone'' \<in> set (modifiedPaths d) then c_phone (doc d) else c_phone s),
       c_password :=
         (if ''password'' \<in> set (modifiedPaths d) then c_password (doc d) else c_password s),
       stripeCustomerId :=
         (if ''stripeCustomerId'' \<in> set (modifiedPaths d) then stripeCustomerId (doc d)
          else stripeCustomerId s),
       profilePictureUrl :=
         (if ''profilePictureUrl'' \<in> set (modifiedPaths d) then profilePictureUrl (doc d)
          else profilePictureUrl s)\<rparr>"

text \<open>
  The unique indexes of the schema: \<open>_id\<close>, \<open>email\<close>, and \<open>stripeCustomerId\<close>
  (sparse: only documents that have the field).
\<close>

definition duplicate_key :: "customer \<Rightarrow> customer list \<Rightarrow> bool" where
  "duplicate_key c others =
     (\<exists>s \<in> set others. c_id s = c_id c \<or> c_email s = c_email c \<or>
        (stripeCustomerId c \<noteq> None \<and> stripeCustomerId s = stripeCustomerId c))"

text \<open>
  \<open>customer.save()\<close>: the validators of the schema run first (their verdict is the
  environment's), then the \<open>pre('save')\<close> hook, then the write: an insert for a new
  document; otherwise the document must still be stored (\<open>DocumentNotFoundError\<close>
  when it is not), and the modified paths are updated (none modified: nothing is
  written). Both writes are subject to the unique indexes.
\<close>

definition Customer_save :: "env \<Rightarrow> document \<Rightarrow> document io" where
  "Customer_save E d w =
     (case mongo_fault E (db w) (Save (doc d)) of
        Some e \<Rightarrow> (Inl e, w)
      | None \<Rightarrow>
          (case pre_save E d of
             Inl e \<Rightarrow> (Inl e, w)
           | Inr d' \<Rightarrow>
               if isNew d' then
                 (if duplicate_key (doc d') (db w)
                  then (Inl (Exception ''MongoServerError'' ''E11000 duplicate key error''), w)
                  else (Inr (d'\<lparr>isNew := False, modifiedPaths := []\<rparr>),
                        w\<lparr>db := db w @ [doc d']\<rparr>))
               else if \<not> (\<exists>s \<in> set (db w). c_id s = c_id (doc d'))
                 then (Inl (Exception ''DocumentNotFoundError'' ''No document found''), w)
               else if modifiedPaths d' = [] then (Inr d', w)
               else if duplicate_key
                         (write_paths d' (doc d'))
                         (filter (\<lambda>s. c_id s \<noteq> c_id (doc d')) (db w))
                 then (Inl (Exception ''MongoServerError'' ''E11000 duplicate key error''), w)
               else (Inr (d'\<lparr>modifiedPaths := []\<rparr>),
                     w\<lparr>db := map (\<lambda>s. if c_id s = c_id (doc d') then write_paths d' s else s)
                                (db w)\<rparr>)))"

definition loaded :: "customer \<Rightarrow> document" where
  "loaded c = \<lparr>doc = c, isNew = False, modifiedPaths = []\<rparr>"

text \<open>
  \<open>Customer.findOne({ email })\<close>: the filter is cast with the schema's setters, as the
  stored emails were (Mongoose runs the setters of a path on query filters too).
\<close>

definition Customer_findOne :: "env \<Rightarrow> string \<Rightarrow> document option io" where
  "Customer_findOne E email w =
     (case mongo_fault E (db w) (FindOne email) of
        Some e \<Rightarrow> (Inl e, w)
      | None \<Rightarrow>
          (Inr (map_option loaded (find (\<lambda>c. c_email c = lowercase (trim email)) (db w))), w))"

text \<open>\<open>Customer.findById(id).select('-password')\<close>.\<close>

definition Customer_findById_select :: "env \<Rightarrow> string \<Rightarrow> document option io" where
  "Customer_findById_select E ident w =
     (case mongo_fault E (db w) (FindById ident) of
        Some e \<Rightarrow> (Inl e, w)
      | None \<Rightarrow>
          (Inr (map_option (\<lambda>c. loaded (c\<lparr>c_password := None\<rparr>))
                  (find (\<lambda>c. c_id c = ident) (db w))), w))"

definition Customer_findByIdAndDelete :: "env \<Rightarrow> string \<Rightarrow> unit io" where
  "Customer_findByIdAndDelete E ident w =
     (case mongo_fault E (db w) (FindByIdAndDelete ident) of
        Some e \<Rightarrow> (Inl e, w)
      | None \<Rightarrow> (Inr (), w\<lparr>db := filter (\<lambda>c. c_id c \<noteq> ident) (db w)\<rparr>))"

definition generateAuthToken :: "env \<Rightarrow> document \<Rightarrow> string io" where
  "generateAuthToken E d w = (jwt_sign E (c_id (doc d)) (c_email (doc d)), w)"

definition comparePassword :: "env \<Rightarrow> document \<Rightarrow> string \<Rightarrow> bool io" where
  "comparePassword E d candidatePassword w =
     (case c_password (doc d) of
        None \<Rightarrow> (Inl (Exception ''Error'' ''data and hash arguments required''), w)
      | Some h \<Rightarrow> (bcrypt_compare E candidatePassword h, w))"

section \<open>Responses\<close>

datatype json =
    JNull
  | JBool bool
  | JNum int
  | JStr string
  | JArr "json list"
  | JObj "(string \<times> json) list"

record response =
  status :: nat
  body :: json

fun opt_json :: "string option \<Rightarrow> json" where
  "opt_json None = JNull"
| "opt_json (Some s) = JStr s"

text \<open>A field that is \<open>undefined\<close> is left out of the serialised object.\<close>

fun opt_field :: "string \<Rightarrow> string option \<Rightarrow> (string \<times> json) list" where
  "opt_field k None = []"
| "opt_field k (Some s) = [(k, JStr s)]"

definition toObject :: "document \<Rightarrow> (string \<times> json) list" where
  "toObject d =
     [(''_id'', JStr (c_id (doc d))), (''name'', JStr (c_name (doc d))),
      (''email'', JStr (c_email (doc d))), (''address'', JStr (c_address (doc d))),
      (''phone'', JStr (c_phone (doc d)))]
     @ opt_field ''password'' (c_password (doc d))
     @ opt_field ''stripeCustomerId'' (stripeCustomerId (doc d))
     @ opt_field ''profilePictureUrl'' (profilePictureUrl (doc d))
     @ [(''__v'', JNum 0)]"

text \<open>\<open>delete ret.k\<close>, and the schema's \<open>toJSON\<close> transform.\<close>

definition delete_key :: "string \<Rightarrow> (string \<times> json) list \<Rightarrow> (string \<times> json) list" where
  "delete_key k ret = filter (\<lambda>kv. fst kv \<noteq> k) ret"

definition transform :: "(string \<times> json) list \<Rightarrow> (string \<times> json) list" where
  "transform ret = delete_key ''__v'' (delete_key ''password'' ret)"

definition toJSON :: "document \<Rightarrow> json" where
  "toJSON d = JObj (transform (toObject d))"

definition stripe_json :: "stripe_object \<Rightarrow> json" where
  "stripe_json obj =
     JObj [(''id'', JStr (obj_id obj)), (''customer'', opt_json (obj_customer obj)),
           (''number'', opt_json (obj_number obj)), (''status'', opt_json (obj_status obj)),
           (''amount_paid'', JNum (obj_amount_paid obj)),
           (''currency'', JStr (obj_currency obj)), (''created'', JNum (obj_created obj)),
           (''hosted_invoice_url'', opt_json (hosted_invoice_url obj)),
           (''invoice_pdf'', opt_json (invoice_pdf obj)),
           (''payment_intent'', opt_json (payment_intent obj))]"

section \<open>Middleware: authentication\<close>

datatype auth_outcome =
    Responded response
  | Next document string

definition error_response :: "nat \<Rightarrow> string \<Rightarrow> response" where
  "error_response code msg = \<lparr>status = code, body = JObj [(''error'', JStr msg)]\<rparr>"

text \<open>
  \<open>authHeader && authHeader.startsWith('Bearer ') ? authHeader.substring(7) : null\<close>
\<close>

definition bearer_token :: "string option \<Rightarrow> string option" where
  "bearer_token authHeader =
     (case authHeader of
        None \<Rightarrow> None
      | Some h \<Rightarrow> if take 7 h = ''Bearer '' then Some (drop 7 h) else None)"

text \<open>
  The error classes of the \<open>jsonwebtoken\<close> library: \<open>TokenExpiredError\<close> and
  \<open>NotBeforeError\<close> are subclasses of \<open>JsonWebTokenError\<close> (their prototypes are
  created from \<open>JsonWebTokenError.prototype\<close>), so an instance of either is an
  instance of \<open>JsonWebTokenError\<close> too.
\<close>

fun instanceof_TokenExpiredError :: "exn \<Rightarrow> bool" where
  "instanceof_TokenExpiredError (Exception n m) = (n = ''TokenExpiredError'')"
| "instanceof_TokenExpiredError (AppError m c) = False"
| "instanceof_TokenExpiredError (StripeError t m) = False"

fun instanceof_JsonWebTokenError :: "exn \<Rightarrow> bool" where
  "instanceof_JsonWebTokenError (Exception n m) =
     (n = ''JsonWebTokenError'' \<or> n = ''TokenExpiredError'' \<or> n = ''NotBeforeError'')"
| "instanceof_JsonWebTokenError (AppError m c) = False"
| "instanceof_JsonWebTokenError (StripeError t m) = False"

definition jwt_verify_io :: "env \<Rightarrow> string \<Rightarrow> (string \<times> string) io" where
  "jwt_verify_io E token w = (jwt_verify E token, w)"

definition authenticateToken :: "env \<Rightarrow> string option \<Rightarrow> auth_outcome io" where
  "authenticateToken E authorization =
     try_catch
       (case bearer_token authorization of
          None \<Rightarrow> return (Responded (error_response 401 ''Access token required''))
        | Some token \<Rightarrow>
            if token = [] then return (Responded (error_response 401 ''Access token required''))
            else and_then (jwt_verify_io E token)
              (\<lambda>decoded. and_then (Customer_findById_select E (fst decoded))
              (\<lambda>customer. case customer of
                     None \<Rightarrow> return (Responded
                               (error_response 401 ''Invalid token - user not found''))
                   | Some c \<Rightarrow> return (Next c token))))
       (\<lambda>error.
          if instanceof_JsonWebTokenError error
            then return (Responded (error_response 401 ''Invalid token''))
          else if instanceof_TokenExpiredError error
            then return (Responded (error_response 401 ''Token expired''))
          else and_then (logger_error ''Authentication error:'' error)
                 (\<lambda>_. return (Responded (error_response 500 ''Authentication failed''))))"

section \<open>Middleware: validation\<close>

text \<open>
  A value of a request body. Numbers are integers (amounts are in minor units); the only
  arrays are arrays of items. A field that is absent reads as \<open>Undefined\<close>.
\<close>

datatype jsval =
    Undefined
  | Null
  | Str string
  | Num int
  | Arr "Item list"

datatype rule_type = TString | TNumber | TArray | TObject

text \<open>
  A rule, with the options the payment rule sets use. The rule types \<open>email\<close> and
  \<open>phone\<close> and the options \<open>pattern\<close> and \<open>custom\<close> are used by no payment rule
  and are not modelled.
\<close>

record ValidationRule =
  field :: string
  required :: bool
  rtype :: "rule_type option"
  minLength :: "nat option"
  maxLength :: "nat option"
  rmin :: "int option"
  rmax :: "int option"

definition digit_char :: "nat \<Rightarrow> char" where
  "digit_char n = ''0123456789'' ! (n mod 10)"

function show_nat :: "nat \<Rightarrow> string" where
  "show_nat n = (if n < 10 then [digit_char n] else show_nat (n div 10) @ [digit_char n])"
  by pat_completeness auto
termination
  by (relation "measure (\<lambda>n. n)") auto

declare show_nat.simps [simp del]

definition show_int :: "int \<Rightarrow> string" where
  "show_int i = (if i < 0 then ''-'' @ show_nat (nat (- i)) else show_nat (nat i))"

text \<open>\<open>Number(value)\<close>; \<open>None\<close> is NaN. An array of objects that is not empty gives NaN.\<close>

fun js_Number :: "env \<Rightarrow> jsval \<Rightarrow> int option" where
  "js_Number E Undefined = None"
| "js_Number E Null = Some 0"
| "js_Number E (Str s) = string_to_number E s"
| "js_Number E (Num n) = Some n"
| "js_Number E (Arr []) = Some 0"
| "js_Number E (Arr (x # xs)) = None"

fun is_string :: "jsval \<Rightarrow> bool" where
  "is_string (Str s) = True"
| "is_string v = False"

fun is_number :: "jsval \<Rightarrow> bool" where
  "is_number (Num n) = True"
| "is_number v = False"

fun is_array :: "jsval \<Rightarrow> bool" where
  "is_array (Arr xs) = True"
| "is_array v = False"

text \<open>\<open>typeof value === 'object'\<close> holds of \<open>null\<close> and of arrays.\<close>

fun typeof_object :: "jsval \<Rightarrow> bool" where
  "typeof_object Null = True"
| "typeof_object (Arr xs) = True"
| "typeof_object v = False"

fun type_errors :: "env \<Rightarrow> ValidationRule \<Rightarrow> jsval \<Rightarrow> string list" where
  "type_errors E rule v =
     (case rtype rule of
        None \<Rightarrow> []
      | Some TString \<Rightarrow> if \<not> is_string v then [field rule @ '' must be a string''] else []
      | Some TNumber \<Rightarrow>
          if \<not> is_number v \<and> js_Number E v = None
          then [field rule @ '' must be a number''] else []
      | Some TArray \<Rightarrow> if \<not> is_array v then [field rule @ '' must be an array''] else []
      | Some TObject \<Rightarrow>
          if \<not> typeof_object v \<or> is_array v
          then [field rule @ '' must be an object''] else [])"

text \<open>\<open>rule.minLength && ...\<close>: a bound of 0 is falsy, like an absent one.\<close>

fun length_errors :: "ValidationRule \<Rightarrow> jsval \<Rightarrow> string list" where
  "length_errors rule (Str s) =
     (case minLength rule of
        None \<Rightarrow> []
      | Some n \<Rightarrow> if n \<noteq> 0 \<and> length s < n
                  then [field rule @ '' must be at least '' @ show_nat n @ '' characters'']
                  else [])
     @ (case maxLength rule of
          None \<Rightarrow> []
        | Some n \<Rightarrow> if n \<noteq> 0 \<and> length s > n
                    then [field rule @ '' must not exceed '' @ show_nat n @ '' characters'']
                    else [])"
| "length_errors rule v = []"

definition range_errors :: "env \<Rightarrow> ValidationRule \<Rightarrow> jsval \<Rightarrow> string list" where
  "range_errors E rule v =
     (case js_Number E v of
        None \<Rightarrow> []
      | Some numValue \<Rightarrow>
          (case rmin rule of
             None \<Rightarrow> []
           | Some m \<Rightarrow> if numValue < m
                       then [field rule @ '' must be at least '' @ show_int m] else [])
          @ (case rmax rule of
               None \<Rightarrow> []
             | Some m \<Rightarrow> if numValue > m
                         then [field rule @ '' must not exceed '' @ show_int m] else []))"

definition check_rule :: "env \<Rightarrow> ValidationRule \<Rightarrow> jsval \<Rightarrow> string list" where
  "check_rule E rule v =
     (if required rule \<and> (v = Undefined \<or> v = Null \<or> v = Str [])
        then [field rule @ '' is required'']
      else if \<not> required rule \<and> (v = Undefined \<or> v = Null) then []
      else type_errors E rule v @ length_errors rule v @ range_errors E rule v)"

fun join :: "string list \<Rightarrow> string" where
  "join [] = []"
| "join [x] = x"
| "join (x # y # ys) = x @ '', '' @ join (y # ys)"

definition validate :: "env \<Rightarrow> ValidationRule list \<Rightarrow> (string \<Rightarrow> jsval) \<Rightarrow> unit io" where
  "validate E rules req_body =
     (let errors = concat (map (\<lambda>rule. check_rule E rule (req_body (field rule))) rules)
      in if length errors > 0 then throw (AppError (join errors) 400) else return ())"

definition mk_rule :: "string \<Rightarrow> bool \<Rightarrow> rule_type \<Rightarrow> ValidationRule" where
  "mk_rule f r t = \<lparr>field = f, required = r, rtype = Some t, minLength = None,
                 maxLength = None, rmin = None, rmax = None\<rparr>"

definition paymentValidation_createPayment :: "ValidationRule list" where
  "paymentValidation_createPayment =
     [mk_rule ''paymentMethodId'' True TString,
      (mk_rule ''amount'' True TNumber)\<lparr>rmin := Some 1\<rparr>,
      (mk_rule ''currency'' False TString)\<lparr>minLength := Some 3, maxLength := Some 3\<rparr>,
      (mk_rule ''description'' False TString)\<lparr>maxLength := Some 500\<rparr>,
      mk_rule ''savePaymentMethod'' False TString]"

definition paymentValidation_createPaymentWithItems :: "ValidationRule list" where
  "paymentValidation_createPaymentWithItems =
     [mk_rule ''paymentMethodId'' True TString,
      mk_rule ''items'' True TArray,
      (mk_rule ''currency'' False TString)\<lparr>minLength := Some 3, maxLength := Some 3\<rparr>,
      mk_rule ''savePaymentMethod'' False TString]"

section \<open>authController\<close>

record RegisterBody =
  rb_name :: string
  rb_email :: string
  rb_address :: string
  rb_phone :: string
  rb_password :: string

definition session_json :: "string \<Rightarrow> document \<Rightarrow> json" where
  "session_json token customer =
     JObj [(''success'', JBool True), (''token'', JStr token),
           (''customer'',
            JObj ([(''id'', JStr (c_id (doc customer))),
                   (''name'', JStr (c_name (doc customer))),
                   (''email'', JStr (c_email (doc customer)))]
                  @ opt_field ''stripeCustomerId'' (stripeCustomerId (doc customer))))]"

definition authController_register :: "env \<Rightarrow> RegisterBody \<Rightarrow> response io" where
  "authController_register E b =
     and_then (Customer_findOne E (rb_email b))
     (\<lambda>existingCustomer.
        if existingCustomer \<noteq> None then throw (AppError ''Email already registered'' 400)
        else and_then
          (createCustomer E \<lparr>cc_email = rb_email b, cc_name = rb_name b,
                             cc_phone = Some (rb_phone b), cc_address = Some (rb_address b)\<rparr>)
          (\<lambda>stripeCustomer.
             try_catch
               (\<lambda>w. and_then
                  (Customer_save E
                     (new_Customer E (db w) (rb_name b) (rb_email b) (rb_address b)
                        (rb_phone b) (rb_password b) (obj_id stripeCustomer)))
                  (\<lambda>customer. and_then (generateAuthToken E customer)
                  (\<lambda>token. and_then (logger_info (''New customer registered: '' @ rb_email b))
                  (\<lambda>_. return \<lparr>status = 201, body = session_json token customer\<rparr>))) w)
               (\<lambda>error. and_then (deleteCustomer E (obj_id stripeCustomer))
                  (\<lambda>_. throw error))))"

definition authController_login :: "env \<Rightarrow> string \<Rightarrow> string \<Rightarrow> response io" where
  "authController_login E email password =
     and_then (Customer_findOne E email)
     (\<lambda>found. case found of
        None \<Rightarrow> throw (AppError ''Invalid email or password'' 401)
      | Some customer \<Rightarrow>
          and_then (comparePassword E customer password)
          (\<lambda>isValidPassword.
             if \<not> isValidPassword then throw (AppError ''Invalid email or password'' 401)
             else and_then (generateAuthToken E customer)
               (\<lambda>token. and_then (logger_info (''Customer logged in: '' @ email))
               (\<lambda>_. return \<lparr>status = 200, body = session_json token customer\<rparr>))))"

section \<open>customerController\<close>

definition profile_json :: "document \<Rightarrow> json" where
  "profile_json customer = JObj [(''success'', JBool True), (''customer'', toJSON customer)]"

definition getProfile :: "env \<Rightarrow> document option \<Rightarrow> response io" where
  "getProfile E req_customer =
     (case req_customer of
        None \<Rightarrow> throw (AppError ''Customer not found'' 404)
      | Some customer \<Rightarrow> return \<lparr>status = 200, body = profile_json customer\<rparr>)"

definition allowedUpdates :: "string list" where
  "allowedUpdates = [''name'', ''address'', ''phone'']"

text \<open>The keys of the body that are allowed, with their values.\<close>

definition updates_of :: "(string \<Rightarrow> string option) \<Rightarrow> string \<Rightarrow> string option" where
  "updates_of req_body key = (if key \<in> set allowedUpdates then req_body key else None)"

text \<open>
  \<open>Object.assign(customer, updates)\<close>: each key given is assigned through the schema's
  setter; a path is modified when the value assigned differs from the one it had.
\<close>

definition assign_path ::
  "string \<Rightarrow> (customer \<Rightarrow> string) \<Rightarrow> (string \<Rightarrow> customer \<Rightarrow> customer) \<Rightarrow>
   (string \<Rightarrow> string option) \<Rightarrow> document \<Rightarrow> document"
where
  "assign_path key get put updates d =
     (case updates key of
        None \<Rightarrow> d
      | Some v \<Rightarrow>
          if trim v = get (doc d) then d
          else d\<lparr>doc := put (trim v) (doc d), modifiedPaths := modifiedPaths d @ [key]\<rparr>)"

definition Object_assign :: "document \<Rightarrow> (string \<Rightarrow> string option) \<Rightarrow> document" where
  "Object_assign customer updates =
     assign_path ''phone'' c_phone (\<lambda>v c. c\<lparr>c_phone := v\<rparr>) updates
       (assign_path ''address'' c_address (\<lambda>v c. c\<lparr>c_address := v\<rparr>) updates
          (assign_path ''name'' c_name (\<lambda>v c. c\<lparr>c_name := v\<rparr>) updates customer))"

fun truthy :: "string option \<Rightarrow> bool" where
  "truthy None = False"
| "truthy (Some s) = (s \<noteq> [])"

definition updateProfile ::
  "env \<Rightarrow> document option \<Rightarrow> (string \<Rightarrow> string option) \<Rightarrow> response io"
where
  "updateProfile E req_customer req_body =
     (case req_customer of
        None \<Rightarrow> throw (AppError ''Customer not found'' 404)
      | Some customer0 \<Rightarrow>
          (let updates = updates_of req_body
           in and_then (Customer_save E (Object_assign customer0 updates))
              (\<lambda>customer. and_then
                 (if truthy (updates ''name'') \<or> truthy (updates ''phone'')
                      \<or> truthy (updates ''address'')
                  then and_then
                         (updateCustomer E (stripeCustomerId (doc customer))
                            \<lparr>uc_name = Some (c_name (doc customer)),
                             uc_phone = Some (c_phone (doc customer)),
                             uc_address = Some (c_address (doc customer))\<rparr>)
                         (\<lambda>_. return ())
                  else return ())
              (\<lambda>_. and_then
                 (logger_info (''Customer profile updated: '' @ c_email (doc customer)))
              (\<lambda>_. return \<lparr>status = 200, body = profile_json customer\<rparr>)))))"

text \<open>
  \<open>if (customer.profilePictureUrl)\<close> and \<open>if (customer.stripeCustomerId)\<close>: an
  absent field and an empty string are falsy.
\<close>

definition uploadProfilePicture ::
  "env \<Rightarrow> document option \<Rightarrow> File option \<Rightarrow> response io"
where
  "uploadProfilePicture E req_customer req_file =
     (case req_file of
        None \<Rightarrow> throw (AppError ''No file uploaded'' 400)
      | Some file \<Rightarrow>
          (case req_customer of
             None \<Rightarrow> throw (AppError ''Customer not found'' 404)
           | Some customer \<Rightarrow>
               and_then
                 (case profilePictureUrl (doc customer) of
                    None \<Rightarrow> return ()
                  | Some url \<Rightarrow> if url = [] then return () else deleteFile E url)
               (\<lambda>_. and_then
                  (uploadFile E file (''profile-pictures/'' @ c_id (doc customer)))
               (\<lambda>publicUrl. and_then
                  (Customer_save E
                     (customer\<lparr>doc := (doc customer)\<lparr>profilePictureUrl := Some publicUrl\<rparr>,
                               modifiedPaths :=
                                 modifiedPaths customer @ [''profilePictureUrl'']\<rparr>))
               (\<lambda>saved. and_then
                  (logger_info
                     (''Profile picture uploaded for customer: '' @ c_email (doc saved)))
               (\<lambda>_. return \<lparr>status = 200,
                              body = JObj [(''success'', JBool True),
                                           (''url'', JStr publicUrl)]\<rparr>))))))"

definition deleteAccount :: "env \<Rightarrow> document option \<Rightarrow> response io" where
  "deleteAccount E req_customer =
     (case req_customer of
        None \<Rightarrow> throw (AppError ''Customer not found'' 404)
      | Some customer \<Rightarrow>
          and_then
            (case stripeCustomerId (doc customer) of
               None \<Rightarrow> return ()
             | Some stripeId \<Rightarrow>
                 if stripeId = [] then return () else deleteCustomer E stripeId)
          (\<lambda>_. and_then
             (case profilePictureUrl (doc customer) of
                None \<Rightarrow> return ()
              | Some url \<Rightarrow> if url = [] then return () else deleteFile E url)
          (\<lambda>_. and_then (Customer_findByIdAndDelete E (c_id (doc customer)))
          (\<lambda>_. and_then
             (logger_info (''Customer account deleted: '' @ c_email (doc customer)))
          (\<lambda>_. return \<lparr>status = 200,
                         body = JObj [(''success'', JBool True),
                                      (''message'', JStr ''Account deleted successfully'')]\<rparr>)))))"

section \<open>stripeController\<close>

record PaymentBody =
  pb_paymentMethodId :: string
  pb_amount :: int
  pb_currency :: "string option"
  pb_description :: "string option"
  pb_savePaymentMethod :: "string option"

text \<open>\<open>items\<close> is \<open>None\<close> when the field is not an array.\<close>

record ItemsBody =
  ib_paymentMethodId :: string
  ib_items :: "Item list option"
  ib_currency :: "string option"
  ib_savePaymentMethod :: "string option"

text \<open>\<open>currency = 'usd'\<close> in the destructuring: the default replaces \<open>undefined\<close>.\<close>

fun default_usd :: "string option \<Rightarrow> string" where
  "default_usd None = ''usd''"
| "default_usd (Some c) = c"

definition result_json :: "PaymentResult \<Rightarrow> json" where
  "result_json r =
     JObj [(''success'', JBool True), (''invoice'', stripe_json (res_invoice r)),
           (''paymentIntent'', stripe_json (res_paymentIntent r)),
           (''invoiceUrl'', opt_json (res_invoiceUrl r)),
           (''invoicePdf'', opt_json (res_invoicePdf r))]"

text \<open>\<open>!customer || !customer.stripeCustomerId\<close>: the id when there is one to use.\<close>

definition stripe_id_of :: "document option \<Rightarrow> string option" where
  "stripe_id_of req_customer =
     (case req_customer of
        None \<Rightarrow> None
      | Some customer \<Rightarrow>
          if truthy (stripeCustomerId (doc customer)) then stripeCustomerId (doc customer)
          else None)"

definition createPayment :: "env \<Rightarrow> document option \<Rightarrow> PaymentBody \<Rightarrow> response io" where
  "createPayment E req_customer b =
     (case stripe_id_of req_customer of
        None \<Rightarrow> throw (AppError ''Customer not found or no Stripe ID'' 404)
      | Some stripeId \<Rightarrow>
          and_then
            (createPaymentWithInvoice E
               \<lparr>pd_customerId = stripeId, pd_paymentMethodId = pb_paymentMethodId b,
                pd_amount = pb_amount b, pd_currency = default_usd (pb_currency b),
                pd_description = pb_description b,
                pd_savePaymentMethod = (pb_savePaymentMethod b = Some ''true'')\<rparr>)
          (\<lambda>result. and_then
             (logger_info (''Payment created for customer: ''
                @ (case req_customer of Some c \<Rightarrow> c_email (doc c) | None \<Rightarrow> [])
                @ '', amount: '' @ show_int (pb_amount b) @ '' '' @ default_usd (pb_currency b)))
          (\<lambda>_. return \<lparr>status = 200, body = result_json result\<rparr>)))"

definition createPaymentWithItems_controller ::
  "env \<Rightarrow> document option \<Rightarrow> ItemsBody \<Rightarrow> response io"
where
  "createPaymentWithItems_controller E req_customer b =
     (case stripe_id_of req_customer of
        None \<Rightarrow> throw (AppError ''Customer not found or no Stripe ID'' 404)
      | Some stripeId \<Rightarrow>
          (case ib_items b of
             None \<Rightarrow> throw (AppError ''Items array is required and must not be empty'' 400)
           | Some items \<Rightarrow>
               if length items = 0
               then throw (AppError ''Items array is required and must not be empty'' 400)
               else and_then
                 (createPaymentWithItems E
                    \<lparr>pi_customerId = stripeId, pi_paymentMethodId = ib_paymentMethodId b,
                     pi_items = items, pi_currency = default_usd (ib_currency b),
                     pi_savePaymentMethod = (ib_savePaymentMethod b = Some ''true'')\<rparr>)
               (\<lambda>result. and_then
                  (logger_info (''Payment with items created for customer: ''
                     @ (case req_customer of Some c \<Rightarrow> c_email (doc c) | None \<Rightarrow> [])))
               (\<lambda>_. return \<lparr>status = 200, body = result_json result\<rparr>))))"

text \<open>
  \<open>resource.customer !== customer.stripeCustomerId\<close>: the owner of a gateway object is
  a string or \<open>null\<close>, the caller's id a string or \<open>undefined\<close>; \<open>null\<close> and
  \<open>undefined\<close> are not strictly equal.
\<close>

fun strict_neq :: "string option \<Rightarrow> string option \<Rightarrow> bool" where
  "strict_neq (Some a) (Some b) = (a \<noteq> b)"
| "strict_neq a b = True"

definition invoice_json :: "stripe_object \<Rightarrow> json" where
  "invoice_json invoice =
     JObj [(''success'', JBool True),
           (''invoice'',
            JObj [(''id'', JStr (obj_id invoice)), (''number'', opt_json (obj_number invoice)),
                  (''status'', opt_json (obj_status invoice)),
                  (''amount_paid'', JNum (obj_amount_paid invoice)),
                  (''currency'', JStr (obj_currency invoice)),
                  (''created'', JNum (obj_created invoice)),
                  (''hosted_invoice_url'', opt_json (hosted_invoice_url invoice)),
                  (''invoice_pdf'', opt_json (invoice_pdf invoice))])]"

definition getInvoice_controller :: "env \<Rightarrow> document option \<Rightarrow> string \<Rightarrow> response io" where
  "getInvoice_controller E req_customer invoiceId =
     (case req_customer of
        None \<Rightarrow> throw (AppError ''Customer not found'' 404)
      | Some customer \<Rightarrow>
          and_then (getInvoice E invoiceId)
          (\<lambda>invoice.
             if strict_neq (obj_customer invoice) (stripeCustomerId (doc customer))
             then throw (AppError ''Invoice not found'' 404)
             else return \<lparr>status = 200, body = invoice_json invoice\<rparr>))"

definition sendInvoice_controller :: "env \<Rightarrow> document option \<Rightarrow> string \<Rightarrow> response io" where
  "sendInvoice_controller E req_customer invoiceId =
     (case req_customer of
        None \<Rightarrow> throw (AppError ''Customer not found'' 404)
      | Some customer \<Rightarrow>
          and_then (getInvoice E invoiceId)
          (\<lambda>invoice.
             if strict_neq (obj_customer invoice) (stripeCustomerId (doc customer))
             then throw (AppError ''Invoice not found'' 404)
             else and_then (sendInvoice E invoiceId)
               (\<lambda>_. and_then
                  (logger_info (''Invoice sent to customer: '' @ c_email (doc customer)
                     @ '', invoice: '' @ invoiceId))
               (\<lambda>_. return \<lparr>status = 200,
                              body = JObj [(''success'', JBool True),
                                           (''message'', JStr ''Invoice sent successfully'')]\<rparr>))))"

definition deletePaymentMethod :: "env \<Rightarrow> document option \<Rightarrow> string \<Rightarrow> response io" where
  "deletePaymentMethod E req_customer paymentMethodId =
     (case req_customer of
        None \<Rightarrow> throw (AppError ''Customer not found'' 404)
      | Some customer \<Rightarrow>
          and_then (getPaymentMethod E paymentMethodId)
          (\<lambda>paymentMethod.
             if strict_neq (obj_customer paymentMethod) (stripeCustomerId (doc customer))
             then throw (AppError ''Payment method not found'' 404)
             else and_then (detachPaymentMethod E paymentMethodId)
               (\<lambda>_. and_then
                  (logger_info (''Payment method deleted for customer: ''
                     @ c_email (doc customer)))
               (\<lambda>_. return
                  \<lparr>status = 200,
                   body = JObj [(''success'', JBool True),
                                (''message'', JStr ''Payment method deleted successfully'')]\<rparr>))))"

section \<open>The payment routes\<close>

text \<open>
  A route runs \<open>authenticateToken\<close>, then the rule set, then the controller. The
  controllers read the body at the types of their TypeScript interfaces; a body that
  passes the rules and still has a field of another run-time type (an amount given as a
  numeric string, a currency that is \<open>null\<close>) is outside the model: the route is
  \<open>None\<close> there.
\<close>

fun opt_string :: "jsval \<Rightarrow> string option option" where
  "opt_string Undefined = Some None"
| "opt_string (Str s) = Some (Some s)"
| "opt_string v = None"

definition decode_PaymentBody :: "(string \<Rightarrow> jsval) \<Rightarrow> PaymentBody option" where
  "decode_PaymentBody req_body =
     (case (req_body ''paymentMethodId'', req_body ''amount'',
            opt_string (req_body ''currency''), opt_string (req_body ''description''),
            opt_string (req_body ''savePaymentMethod'')) of
        (Str pm, Num a, Some c, Some d, Some s) \<Rightarrow>
          Some \<lparr>pb_paymentMethodId = pm, pb_amount = a, pb_currency = c,
                pb_description = d, pb_savePaymentMethod = s\<rparr>
      | _ \<Rightarrow> None)"

definition decode_ItemsBody :: "(string \<Rightarrow> jsval) \<Rightarrow> ItemsBody option" where
  "decode_ItemsBody req_body =
     (case (req_body ''paymentMethodId'', req_body ''items'',
            opt_string (req_body ''currency''),
            opt_string (req_body ''savePaymentMethod'')) of
        (Str pm, Arr items, Some c, Some s) \<Rightarrow>
          Some \<lparr>ib_paymentMethodId = pm, ib_items = Some items, ib_currency = c,
                ib_savePaymentMethod = s\<rparr>
      | _ \<Rightarrow> None)"

definition route ::
  "env \<Rightarrow> string option \<Rightarrow> unit io \<Rightarrow> (document option \<Rightarrow> response io) option \<Rightarrow>
   world \<Rightarrow> ((exn + response) \<times> world) option"
where
  "route E authorization validation handler w =
     (case authenticateToken E authorization w of
        (Inl e, w1) \<Rightarrow> Some (Inl e, w1)
      | (Inr (Responded r), w1) \<Rightarrow> Some (Inr r, w1)
      | (Inr (Next customer token), w1) \<Rightarrow>
          (case validation w1 of
             (Inl e, w2) \<Rightarrow> Some (Inl e, w2)
           | (Inr u, w2) \<Rightarrow>
               (case handler of
                  None \<Rightarrow> None
                | Some h \<Rightarrow> Some (h (Some customer) w2))))"

definition post_create_payment ::
  "env \<Rightarrow> string option \<Rightarrow> (string \<Rightarrow> jsval) \<Rightarrow> world \<Rightarrow> ((exn + response) \<times> world) option"
where
  "post_create_payment E authorization req_body =
     route E authorization (validate E paymentValidation_createPayment req_body)
       (map_option (\<lambda>b c. createPayment E c b) (decode_PaymentBody req_body))"

definition post_create_payment_with_items ::
  "env \<Rightarrow> string option \<Rightarrow> (string \<Rightarrow> jsval) \<Rightarrow> world \<Rightarrow> ((exn + response) \<times> world) option"
where
  "post_create_payment_with_items E authorization req_body =
     route E authorization (validate E paymentValidation_createPaymentWithItems req_body)
       (map_option (\<lambda>b c. createPaymentWithItems_controller E c b)
          (decode_ItemsBody req_body))"

section \<open>Observations on a run\<close>

text \<open>The gateway calls made between two worlds of one run, with their outcomes.\<close>

definition events_since :: "world \<Rightarrow> world \<Rightarrow> stripe_event list" where
  "events_since w w' = drop (length (stripe_log w)) (stripe_log w')"

fun creates_invoicing :: "stripe_call \<Rightarrow> bool" where
  "creates_invoicing (InvoiceItemsCreate c a cur d q) = True"
| "creates_invoicing (InvoicesCreate c) = True"
| "creates_invoicing c = False"

text \<open>
  The gateway rejects the attach call, or accepts it and then rejects the call that sets
  the default payment method.
\<close>

definition save_fails :: "env \<Rightarrow> string \<Rightarrow> string \<Rightarrow> world \<Rightarrow> bool" where
  "save_fails E pm c w =
     (case stripe E (stripe_log w) (PaymentMethodsAttach pm c) of
        Inl e \<Rightarrow> True
      | Inr a \<Rightarrow>
          isl (stripe E (stripe_log w @ [(PaymentMethodsAttach pm c, Inr a)])
                 (CustomersUpdateDefault c pm)))"

definition aborted_before_invoicing :: "world \<Rightarrow> (exn + 'a) \<times> world \<Rightarrow> bool" where
  "aborted_before_invoicing w r =
     (isl (fst r) \<and> (\<forall>ev \<in> set (events_since w (snd r)). \<not> creates_invoicing (fst ev)))"

text \<open>
  A request that was turned away before the controller: no gateway call was made, and
  the outcome is the 400 error of the validation or the 401 or 500 response of the
  authentication.
\<close>

definition not_processed :: "world \<Rightarrow> (exn + response) \<times> world \<Rightarrow> bool" where
  "not_processed w r =
     (events_since w (snd r) = [] \<and>
      (case fst r of
         Inl e \<Rightarrow> (case e of AppError m code \<Rightarrow> code = 400 | _ \<Rightarrow> False)
       | Inr resp \<Rightarrow> status resp = 401 \<or> status resp = 500))"

text \<open>
  Whether every operation on a payment method in a run comes after an ownership check:
  a retrieval of that payment method that returned an object owned by the caller's
  Billing Account. The operations are attaching it, detaching it, and paying an invoice
  with it.
\<close>

fun operates_on :: "string \<Rightarrow> stripe_call \<Rightarrow> bool" where
  "operates_on pm (PaymentMethodsAttach p c) = (p = pm)"
| "operates_on pm (PaymentMethodsDetach p) = (p = pm)"
| "operates_on pm (InvoicesPay i p) = (p = pm)"
| "operates_on pm c = False"

fun owner_verified :: "string \<Rightarrow> string option \<Rightarrow> stripe_event \<Rightarrow> bool" where
  "owner_verified pm caller (PaymentMethodsRetrieve p, Inr obj) =
     (p = pm \<and> (case obj_customer obj of None \<Rightarrow> False | Some a \<Rightarrow> caller = Some a))"
| "owner_verified pm caller ev = False"

fun checked_before :: "string \<Rightarrow> string option \<Rightarrow> bool \<Rightarrow> stripe_event list \<Rightarrow> bool" where
  "checked_before pm caller seen [] = True"
| "checked_before pm caller seen (ev # evs) =
     ((operates_on pm (fst ev) \<longrightarrow> seen) \<and>
      checked_before pm caller (seen \<or> owner_verified pm caller ev) evs)"

definition caller_account :: "document option \<Rightarrow> string option" where
  "caller_account req_customer =
     (case req_customer of None \<Rightarrow> None | Some c \<Rightarrow> stripeCustomerId (doc c))"

text \<open>
  The Billing Accounts that exist at the gateway according to the log (created and not
  deleted since), and those of them that no stored Customer Identity refers to.
\<close>

fun account_step :: "string list \<Rightarrow> stripe_event \<Rightarrow> string list" where
  "account_step live (CustomersCreate e n p a, Inr obj) = live @ [obj_id obj]"
| "account_step live (CustomersDel i, Inr obj) = removeAll i live"
| "account_step live ev = live"

definition live_accounts :: "stripe_event list \<Rightarrow> string list" where
  "live_accounts log = foldl account_step [] log"

definition dangling_accounts :: "world \<Rightarrow> string list" where
  "dangling_accounts w =
     filter (\<lambda>a. \<forall>c \<in> set (db w). stripeCustomerId c \<noteq> Some a)
       (live_accounts (stripe_log w))"

text \<open>Registration: the email is taken; the gateway call and the document it builds.\<close>

definition email_registered :: "customer list \<Rightarrow> string \<Rightarrow> bool" where
  "email_registered stored email = (\<exists>c \<in> set stored. c_email c = lowercase (trim email))"

definition create_call :: "RegisterBody \<Rightarrow> stripe_call" where
  "create_call b =
     CustomersCreate (rb_email b) (rb_name b) (Some (rb_phone b))
       (address_line1 (Some (rb_address b)))"

definition new_identity :: "env \<Rightarrow> customer list \<Rightarrow> RegisterBody \<Rightarrow> string \<Rightarrow> document" where
  "new_identity E stored b stripeId =
     new_Customer E stored (rb_name b) (rb_email b) (rb_address b) (rb_phone b)
       (rb_password b) stripeId"

text \<open>
  A registration that failed with \<open>e\<close> after the gateway created the account \<open>sc\<close>:
  the error is \<open>e\<close>, the collection is unchanged, the gateway was called twice (create,
  then delete of the created account), and the account is not left dangling when the
  delete succeeded.
\<close>

definition compensated ::
  "env \<Rightarrow> RegisterBody \<Rightarrow> world \<Rightarrow> stripe_object \<Rightarrow> exn \<Rightarrow> bool"
where
  "compensated E b w sc e =
     (let r = authController_register E b w;
          del = stripe E (stripe_log w @ [(create_call b, Inr sc)]) (CustomersDel (obj_id sc))
      in fst r = Inl e \<and> db (snd r) = db w \<and>
         events_since w (snd r) = [(create_call b, Inr sc), (CustomersDel (obj_id sc), del)] \<and>
         (\<not> isl del \<longrightarrow> obj_id sc \<notin> set (dangling_accounts (snd r))))"



section \<open>The checkout state machine of the specification\<close>

text \<open>
  \<open>spec_checkout\<close> follows the words of the specification, not the code:
  \<open>START \<rightarrow> [attach-method?] \<rightarrow> line-items-created \<rightarrow> invoice-created \<rightarrow>
  invoice-finalized \<rightarrow> invoice-paid \<rightarrow> intent-retrieved \<rightarrow> DONE\<close>, strictly sequential,
  each failure aborting the remaining steps; the method is attached and set as default
  when persistence is requested; one line item is created per entry, all of them before
  the invoice; the invoice is paid with the method supplied; a card-decline-class error
  becomes a 400 with the processor's message and any other failure a generic 500, logged
  under \<open>label\<close>. The two entry points differ in the list of line items only. The
  rejection of amounts that are not positive, which the specification also asks of the
  orchestrator, is not part of this machine: neither service function has it.
\<close>

record LineItem =
  li_amount :: int
  li_description :: string
  li_quantity :: "int option"

definition line_call :: "string \<Rightarrow> string \<Rightarrow> LineItem \<Rightarrow> stripe_call" where
  "line_call account currency l =
     InvoiceItemsCreate account (li_amount l) currency (li_description l) (li_quantity l)"

definition spec_checkout ::
  "env \<Rightarrow> string \<Rightarrow> string \<Rightarrow> string \<Rightarrow> string \<Rightarrow> bool \<Rightarrow> LineItem list \<Rightarrow> PaymentResult io"
where
  "spec_checkout E label account method currency persist lines =
     try_catch
       (and_then
          (if persist
           then and_then (stripe_request E (PaymentMethodsAttach method account))
                  (\<lambda>_. and_then (stripe_request E (CustomersUpdateDefault account method))
                     (\<lambda>_. return ()))
           else return ())
       (\<lambda>_. and_then
          (promise_all E (map (\<lambda>l. stripe_request E (line_call account currency l)) lines))
       (\<lambda>_. and_then (stripe_request E (InvoicesCreate account))
       (\<lambda>draft. and_then (stripe_request E (InvoicesFinalizeInvoice (obj_id draft)))
       (\<lambda>opened. and_then (stripe_request E (InvoicesPay (obj_id draft) method))
       (\<lambda>paid. and_then (stripe_request E (PaymentIntentsRetrieve (payment_intent paid)))
       (\<lambda>intent. return
          \<lparr>res_invoice = paid, res_paymentIntent = intent,
           res_invoiceUrl = hosted_invoice_url paid,
           res_invoicePdf = invoice_pdf paid\<rparr>)))))))
       (\<lambda>failure. and_then (logger_error label failure)
          (\<lambda>_. if error_type failure = Some ''StripeCardError''
                then throw (AppError (error_message failure) 400)
                else throw (AppError ''Payment processing failed'' 500)))"

text \<open>The line items each entry point derives from its input.\<close>

definition single_line :: "PaymentData \<Rightarrow> LineItem list" where
  "single_line d =
     [\<lparr>li_amount = pd_amount d,
       li_description = or_string (pd_description d) ''One-time payment'',
       li_quantity = None\<rparr>]"

definition item_lines :: "PaymentWithItemsData \<Rightarrow> LineItem list" where
  "item_lines d =
     map (\<lambda>item. \<lparr>li_amount = item_amount item, li_description = item_description item,
                   li_quantity = Some (or_number (item_quantity item) 1)\<rparr>)
       (pi_items d)"

text \<open>
  The total of an invoice as the specification's scenario reads the gateway
  (\<open>300 + 200*2 = 700\<close>): each line item that the gateway accepted counts its amount
  times its quantity, and a line item without a quantity counts once. \<open>items_total\<close>
  is the total of a list of items read the same way; \<open>sent_total\<close> reads a quantity
  that is absent or 0 as 1, as \<open>item.quantity || 1\<close> does.
\<close>

fun quantity_or_one :: "int option \<Rightarrow> int" where
  "quantity_or_one None = 1"
| "quantity_or_one (Some q) = q"

fun event_charge :: "stripe_event \<Rightarrow> int" where
  "event_charge (InvoiceItemsCreate c a cur d q, Inr obj) = a * quantity_or_one q"
| "event_charge ev = 0"

definition charged_total :: "stripe_event list \<Rightarrow> int" where
  "charged_total evs = sum_list (map event_charge evs)"

definition items_total :: "Item list \<Rightarrow> int" where
  "items_total items =
     sum_list (map (\<lambda>item. item_amount item * quantity_or_one (item_quantity item)) items)"

definition sent_total :: "Item list \<Rightarrow> int" where
  "sent_total items =
     sum_list (map (\<lambda>item. item_amount item * or_number (item_quantity item) 1) items)"

definition lines_total :: "LineItem list \<Rightarrow> int" where
  "lines_total lines = sum_list (map (\<lambda>l. li_amount l * quantity_or_one (li_quantity l)) lines)"

section \<open>The requests that read or write the collection\<close>

text \<open>
  The routes of the authentication and customer routers; each customer route runs
  \<open>authenticateToken\<close> first. A world is reachable when it comes from an empty
  collection by any sequence of these requests.
\<close>

datatype request =
    Register RegisterBody
  | Login string string
  | GetProfile "string option"
  | UpdateProfile "string option" "string \<Rightarrow> string option"
  | UploadProfilePicture "string option" "File option"
  | DeleteAccount "string option"

definition authenticated ::
  "env \<Rightarrow> string option \<Rightarrow> (document option \<Rightarrow> response io) \<Rightarrow> response io"
where
  "authenticated E authorization handler =
     and_then (authenticateToken E authorization)
       (\<lambda>outcome. case outcome of
          Responded r \<Rightarrow> return r
        | Next customer token \<Rightarrow> handler (Some customer))"

fun handle :: "env \<Rightarrow> request \<Rightarrow> response io" where
  "handle E (Register b) = authController_register E b"
| "handle E (Login email password) = authController_login E email password"
| "handle E (GetProfile a) = authenticated E a (getProfile E)"
| "handle E (UpdateProfile a b) = authenticated E a (\<lambda>c. updateProfile E c b)"
| "handle E (UploadProfilePicture a f) = authenticated E a (\<lambda>c. uploadProfilePicture E c f)"
| "handle E (DeleteAccount a) = authenticated E a (deleteAccount E)"

inductive reachable :: "env \<Rightarrow> world \<Rightarrow> bool" for E where
  start: "db w = [] \<Longrightarrow> reachable E w"
| step: "reachable E w \<Longrightarrow> reachable E (snd (handle E req w))"

text \<open>Some object inside a JSON value has the key.\<close>

fun has_key :: "string \<Rightarrow> json \<Rightarrow> bool" where
  "has_key k (JObj kvs) = (\<exists>kv \<in> set kvs. fst kv = k \<or> has_key k (snd kv))"
| "has_key k (JArr xs) = (\<exists>x \<in> set xs. has_key k x)"
| "has_key k v = False"

text \<open>Every stored password is the bcrypt hash (10 rounds) of some string.\<close>

definition credentials_hashed :: "env \<Rightarrow> customer list \<Rightarrow> bool" where
  "credentials_hashed E stored =
     (\<forall>c \<in> set stored. \<exists>p h. c_password c = Some h \<and> bcrypt_hash E p 10 = Inr h)"

text \<open>
  \<open>keeps E m Q\<close>: running \<open>m\<close> keeps every stored password a hash, and a result
  that \<open>m\<close> returns satisfies \<open>Q\<close>.
\<close>

definition keeps :: "env \<Rightarrow> 'a io \<Rightarrow> ('a \<Rightarrow> bool) \<Rightarrow> bool" where
  "keeps E m Q =
     (\<forall>w. credentials_hashed E (db w) \<longrightarrow>
           credentials_hashed E (db (snd (m w))) \<and> (\<forall>a. fst (m w) = Inr a \<longrightarrow> Q a))"

text \<open>
  A response without a \<open>password\<close> key; a document as \<open>authenticateToken\<close> loads
  it (saved before, password neither selected nor modified); and what
  \<open>authenticateToken\<close> may produce.
\<close>

definition safe :: "response \<Rightarrow> bool" where
  "safe r = (\<not> has_key ''password'' (body r))"

definition stripped :: "document \<Rightarrow> bool" where
  "stripped c = (\<not> isNew c \<and> ''password'' \<notin> set (modifiedPaths c) \<and> c_password (doc c) = None)"

fun outcome_ok :: "auth_outcome \<Rightarrow> bool" where
  "outcome_ok (Responded r) = safe r"
| "outcome_ok (Next c token) = stripped c"

section \<open>Example environments\<close>

definition object :: "string \<Rightarrow> stripe_object" where
  "object ident =
     \<lparr>obj_id = ident, obj_customer = None, obj_number = None, obj_status = None,
      obj_amount_paid = 0, obj_currency = ''usd'', obj_created = 0,
      hosted_invoice_url = None, invoice_pdf = None, payment_intent = None\<rparr>"

text \<open>A gateway that accepts every call.\<close>

fun gateway_ok :: "stripe_event list \<Rightarrow> stripe_call \<Rightarrow> exn + stripe_object" where
  "gateway_ok h (CustomersCreate e n p a) = Inr (object ''cus_1'')"
| "gateway_ok h (InvoicesCreate c) = Inr ((object ''in_1'')\<lparr>obj_customer := Some c\<rparr>)"
| "gateway_ok h (InvoicesFinalizeInvoice i) = Inr (object i)"
| "gateway_ok h (InvoicesPay i pm) = Inr ((object i)\<lparr>payment_intent := Some ''pi_1''\<rparr>)"
| "gateway_ok h (PaymentIntentsRetrieve p) = Inr (object ''pi_1'')"
| "gateway_ok h (InvoicesRetrieve i) = Inr ((object i)\<lparr>obj_customer := Some ''cus_2''\<rparr>)"
| "gateway_ok h (PaymentMethodsRetrieve pm) = Inr ((object pm)\<lparr>obj_customer := Some ''cus_2''\<rparr>)"
| "gateway_ok h c = Inr (object ''obj'')"

text \<open>A gateway that is down.\<close>

definition gateway_down :: "stripe_event list \<Rightarrow> stripe_call \<Rightarrow> exn + stripe_object" where
  "gateway_down h c = Inl (StripeError ''StripeConnectionError'' ''connection refused'')"

text \<open>A gateway that declines to attach a payment method.\<close>

fun gateway_no_attach :: "stripe_event list \<Rightarrow> stripe_call \<Rightarrow> exn + stripe_object" where
  "gateway_no_attach h (PaymentMethodsAttach pm c) =
     Inl (StripeError ''StripeCardError'' ''Your card was declined.'')"
| "gateway_no_attach h c = gateway_ok h c"

definition example_env :: env where
  "example_env =
     \<lparr>stripe = gateway_ok,
      mongo_fault = (\<lambda>stored op. None),
      new_ObjectId = (\<lambda>stored. ''id_1''),
      bcrypt_hash = (\<lambda>p rounds. Inr (''$2b$10$'' @ p)),
      bcrypt_compare = (\<lambda>p h. Inr (h = ''$2b$10$'' @ p)),
      jwt_sign = (\<lambda>ident email. Inr (''jwt.'' @ ident)),
      jwt_verify = (\<lambda>token. Inr (drop 4 token, [])),
      bucket_name = Some ''bucket'',
      gcs = (\<lambda>h c. Inr True),
      date_now = ''0'',
      string_to_number = (\<lambda>s. None),
      arrives_first = (\<lambda>es. case es of [] \<Rightarrow> Exception [] [] | e # rest \<Rightarrow> e)\<rparr>"

definition empty_world :: world where
  "empty_world = \<lparr>stripe_log = [], logger = [], db = [], gcs_log = []\<rparr>"

definition example_payment :: PaymentData where
  "example_payment =
     \<lparr>pd_customerId = ''cus_1'', pd_paymentMethodId = ''pm_1'', pd_amount = 500,
      pd_currency = ''usd'', pd_description = None, pd_savePaymentMethod = True\<rparr>"

definition example_items_payment :: PaymentWithItemsData where
  "example_items_payment =
     \<lparr>pi_customerId = ''cus_1'', pi_paymentMethodId = ''pm_1'',
      pi_items = [\<lparr>item_amount = 300, item_description = ''A'', item_quantity = None\<rparr>,
                  \<lparr>item_amount = 200, item_description = ''B'', item_quantity = Some 2\<rparr>],
      pi_currency = ''usd'', pi_savePaymentMethod = True\<rparr>"

text \<open>A gateway that refuses to delete a customer.\<close>

fun gateway_no_delete :: "stripe_event list \<Rightarrow> stripe_call \<Rightarrow> exn + stripe_object" where
  "gateway_no_delete h (CustomersDel i) =
     Inl (StripeError ''StripeConnectionError'' ''connection refused'')"
| "gateway_no_delete h c = gateway_ok h c"

text \<open>A database layer that rejects every save (a validator of the schema fails).\<close>

fun rejects_save :: "customer list \<Rightarrow> mongo_op \<Rightarrow> exn option" where
  "rejects_save stored (Save c) =
     Some (Exception ''ValidationError'' ''Customer validation failed'')"
| "rejects_save stored op = None"

definition example_registration :: RegisterBody where
  "example_registration =
     \<lparr>rb_name = ''Ann'', rb_email = ''a@x.com'', rb_address = ''1 Main St'',
      rb_phone = ''555 0100'', rb_password = ''secret1''\<rparr>"

definition example_stored :: customer where
  "example_stored =
     \<lparr>c_id = ''id_1'', c_name = ''Ann'', c_email = ''a@x.com'',
      c_address = ''1 Main St'', c_phone = ''555 0100'',
      c_password = Some ''$2b$10$secret1'', stripeCustomerId = Some ''cus_1'',
      profilePictureUrl = None\<rparr>"

text \<open>The document \<open>authenticateToken\<close> loads for that customer.\<close>

definition example_customer :: document where
  "example_customer = loaded (example_stored\<lparr>c_password := None\<rparr>)"

definition example_body :: PaymentBody where
  "example_body =
     \<lparr>pb_paymentMethodId = ''pm_2'', pb_amount = 500, pb_currency = None,
      pb_description = None, pb_savePaymentMethod = None\<rparr>"

definition broken_env :: env where
  "broken_env = example_env\<lparr>stripe := gateway_no_delete, mongo_fault := rejects_save\<rparr>"

text \<open>Token verification that throws \<open>TokenExpiredError\<close>, or \<open>JsonWebTokenError\<close>.\<close>

definition expired_env :: env where
  "expired_env =
     example_env\<lparr>jwt_verify := (\<lambda>token. Inl (Exception ''TokenExpiredError'' ''jwt expired''))\<rparr>"

definition malformed_env :: env where
  "malformed_env =
     example_env\<lparr>jwt_verify := (\<lambda>token. Inl (Exception ''JsonWebTokenError'' ''jwt malformed''))\<rparr>"

definition zero_item_body :: "string \<Rightarrow> jsval" where
  "zero_item_body =
     (\<lambda>k. Undefined)
       (''paymentMethodId'' := Str ''pm_1'',
        ''items'' := Arr [\<lparr>item_amount = 0, item_description = ''A'', item_quantity = None\<rparr>])"

definition negative_item_body :: "string \<Rightarrow> jsval" where
  "negative_item_body =
     (\<lambda>k. Undefined)
       (''paymentMethodId'' := Str ''pm_1'',
        ''items'' := Arr [\<lparr>item_amount = - 500, item_description = ''B'',
                          item_quantity = Some 2\<rparr>])"

definition zero_quantity_payment :: PaymentWithItemsData where
  "zero_quantity_payment =
     \<lparr>pi_customerId = ''cus_1'', pi_paymentMethodId = ''pm_1'',
      pi_items = [\<lparr>item_amount = 500, item_description = ''A'', item_quantity = None\<rparr>,
                  \<lparr>item_amount = 100, item_description = ''B'', item_quantity = Some 0\<rparr>],
      pi_currency = ''usd'', pi_savePaymentMethod = True\<rparr>"

section \<open>Properties\<close>

subsection \<open>The combinators\<close>

lemma and_then_return [simp]: "and_then (return a) f = f a"
  by (rule ext) (simp add: and_then_def return_def)

lemma and_then_throw [simp]: "and_then (throw e) f = throw e"
  by (rule ext) (simp add: and_then_def throw_def)

lemma try_catch_return [simp]: "try_catch (return a) h = return a"
  by (rule ext) (simp add: try_catch_def return_def)

lemma try_catch_throw [simp]: "try_catch (throw e) h = h e"
  by (rule ext) (simp add: try_catch_def throw_def)

lemma try_and_then_Inl:
  "m w = (Inl e, w') \<Longrightarrow> try_catch (and_then m f) h w = h e w'"
  by (simp add: try_catch_def and_then_def)

subsection \<open>Cleanup never raises\<close>

lemma deleteCustomer_result: "fst (deleteCustomer E customerId w) = Inr ()"
  by (simp add: deleteCustomer_def try_catch_def and_then_def stripe_request_def
      logger_error_def return_def Let_def split: sum.splits)

lemma deleteCustomer_logs:
  "stripe E (stripe_log w) (CustomersDel customerId) = Inl e \<Longrightarrow>
   logger (snd (deleteCustomer E customerId w))
     = logger w @ [LogError ''Stripe delete customer error:'' e]"
  by (simp add: deleteCustomer_def try_catch_def and_then_def stripe_request_def
      logger_error_def return_def Let_def)

lemma deleteFile_result: "fst (deleteFile E url w) = Inr ()"
  by (simp add: deleteFile_def try_catch_def and_then_def gcs_request_def
      logger_error_def return_def Let_def split: sum.splits option.splits)

text \<open>
  C6. \<open>stripeService.deleteCustomer\<close> returns normally whatever the gateway answers,
  and when the gateway call fails the failure is logged; \<open>storageService.deleteFile\<close>
  returns normally whatever the storage service answers.
\<close>

theorem cleanup_never_raises:
  "fst (deleteCustomer E customerId w) = Inr () \<and>
   (\<forall>e. stripe E (stripe_log w) (CustomersDel customerId) = Inl e \<longrightarrow>
      logger (snd (deleteCustomer E customerId w))
        = logger w @ [LogError ''Stripe delete customer error:'' e]) \<and>
   fst (deleteFile E url w) = Inr ()"
  by (simp add: deleteCustomer_result deleteCustomer_logs deleteFile_result)

theorem cleanup_never_raises_witness:
  "stripe (example_env\<lparr>stripe := gateway_down\<rparr>) (stripe_log empty_world)
       (CustomersDel ''cus_1'')
     = Inl (StripeError ''StripeConnectionError'' ''connection refused'') \<and>
   fst (deleteCustomer (example_env\<lparr>stripe := gateway_down\<rparr>) ''cus_1'' empty_world)
     = Inr () \<and>
   logger (snd (deleteCustomer (example_env\<lparr>stripe := gateway_down\<rparr>) ''cus_1''
                  empty_world))
     = [LogError ''Stripe delete customer error:''
          (StripeError ''StripeConnectionError'' ''connection refused'')]"
  using cleanup_never_raises
    [of "example_env\<lparr>stripe := gateway_down\<rparr>" "''cus_1''" empty_world]
  by (simp add: example_env_def gateway_down_def empty_world_def)

subsection \<open>A failed save step aborts the checkout\<close>

lemma payment_error_result:
  "isl (fst (payment_error l e w))"
  "stripe_log (snd (payment_error l e w)) = stripe_log w"
  by (simp_all add: payment_error_def and_then_def logger_error_def throw_def)

lemma attach_cases:
  "attach_if_saving E True pm c w =
     (case stripe E (stripe_log w) (PaymentMethodsAttach pm c) of
        Inl e \<Rightarrow>
          (Inl e, w\<lparr>stripe_log := stripe_log w @ [(PaymentMethodsAttach pm c, Inl e)]\<rparr>)
      | Inr a \<Rightarrow>
         (case stripe E (stripe_log w @ [(PaymentMethodsAttach pm c, Inr a)])
                 (CustomersUpdateDefault c pm) of
            Inl e \<Rightarrow>
              (Inl e, w\<lparr>stripe_log := stripe_log w @
                 [(PaymentMethodsAttach pm c, Inr a), (CustomersUpdateDefault c pm, Inl e)]\<rparr>)
          | Inr b \<Rightarrow>
              (Inr (), w\<lparr>stripe_log := stripe_log w @
                 [(PaymentMethodsAttach pm c, Inr a), (CustomersUpdateDefault c pm, Inr b)]\<rparr>)))"
  by (simp add: attach_if_saving_def and_then_def stripe_request_def return_def Let_def
      split: sum.splits)

lemma attach_fails:
  assumes "save_fails E pm c w"
  shows "\<exists>e evs. attach_if_saving E True pm c w
                   = (Inl e, w\<lparr>stripe_log := stripe_log w @ evs\<rparr>)
           \<and> (\<forall>ev \<in> set evs. \<not> creates_invoicing (fst ev))"
proof (cases "stripe E (stripe_log w) (PaymentMethodsAttach pm c)")
  case (Inl e)
  then have "attach_if_saving E True pm c w =
      (Inl e, w\<lparr>stripe_log := stripe_log w @ [(PaymentMethodsAttach pm c, Inl e)]\<rparr>)"
    by (simp add: attach_cases)
  then show ?thesis by fastforce
next
  case (Inr a)
  with assms obtain e where
    "stripe E (stripe_log w @ [(PaymentMethodsAttach pm c, Inr a)])
       (CustomersUpdateDefault c pm) = Inl e"
    by (auto simp: save_fails_def isl_def)
  with Inr have "attach_if_saving E True pm c w =
      (Inl e, w\<lparr>stripe_log := stripe_log w @
         [(PaymentMethodsAttach pm c, Inr a), (CustomersUpdateDefault c pm, Inl e)]\<rparr>)"
    by (simp add: attach_cases)
  then show ?thesis by fastforce
qed

lemma save_failure_aborts_invoice:
  assumes "pd_savePaymentMethod d"
    and "save_fails E (pd_paymentMethodId d) (pd_customerId d) w"
  shows "aborted_before_invoicing w (createPaymentWithInvoice E d w)"
proof -
  from attach_fails [OF assms(2)] obtain e evs where
    a: "attach_if_saving E True (pd_paymentMethodId d) (pd_customerId d) w
          = (Inl e, w\<lparr>stripe_log := stripe_log w @ evs\<rparr>)"
    and evs: "\<forall>ev \<in> set evs. \<not> creates_invoicing (fst ev)"
    by blast
  have "createPaymentWithInvoice E d w =
          payment_error ''Stripe payment error:'' e (w\<lparr>stripe_log := stripe_log w @ evs\<rparr>)"
    unfolding createPaymentWithInvoice_def using assms(1) a
    by (simp add: try_and_then_Inl)
  then show ?thesis
    using evs by (simp add: aborted_before_invoicing_def payment_error_result events_since_def)
qed

lemma save_failure_aborts_items:
  assumes "pi_savePaymentMethod d"
    and "save_fails E (pi_paymentMethodId d) (pi_customerId d) w"
  shows "aborted_before_invoicing w (createPaymentWithItems E d w)"
proof -
  from attach_fails [OF assms(2)] obtain e evs where
    a: "attach_if_saving E True (pi_paymentMethodId d) (pi_customerId d) w
          = (Inl e, w\<lparr>stripe_log := stripe_log w @ evs\<rparr>)"
    and evs: "\<forall>ev \<in> set evs. \<not> creates_invoicing (fst ev)"
    by blast
  have "createPaymentWithItems E d w =
          payment_error ''Stripe payment with items error:'' e
            (w\<lparr>stripe_log := stripe_log w @ evs\<rparr>)"
    unfolding createPaymentWithItems_def using assms(1) a
    by (simp add: try_and_then_Inl)
  then show ?thesis
    using evs by (simp add: aborted_before_invoicing_def payment_error_result events_since_def)
qed

text \<open>
  C4. When saving the payment method was requested and the attach step or the
  set-as-default step fails, the attempt ends in an error and, in that attempt, no
  invoice item and no invoice is created; in the single-amount flow and in the
  multi-item flow.
\<close>

theorem save_failure_aborts_checkout:
  "(pd_savePaymentMethod d \<and> save_fails E (pd_paymentMethodId d) (pd_customerId d) w
      \<longrightarrow> aborted_before_invoicing w (createPaymentWithInvoice E d w)) \<and>
   (pi_savePaymentMethod d' \<and> save_fails E (pi_paymentMethodId d') (pi_customerId d') w
      \<longrightarrow> aborted_before_invoicing w (createPaymentWithItems E d' w))"
  using save_failure_aborts_invoice save_failure_aborts_items by blast

theorem save_failure_aborts_checkout_witness:
  "pd_savePaymentMethod example_payment \<and>
   save_fails (example_env\<lparr>stripe := gateway_no_attach\<rparr>) ''pm_1'' ''cus_1'' empty_world \<and>
   pi_savePaymentMethod example_items_payment \<and>
   aborted_before_invoicing empty_world
     (createPaymentWithInvoice (example_env\<lparr>stripe := gateway_no_attach\<rparr>) example_payment
        empty_world) \<and>
   aborted_before_invoicing empty_world
     (createPaymentWithItems (example_env\<lparr>stripe := gateway_no_attach\<rparr>)
        example_items_payment empty_world)"
  using save_failure_aborts_checkout
    [of example_payment "example_env\<lparr>stripe := gateway_no_attach\<rparr>" empty_world
        example_items_payment]
  by (simp add: example_payment_def example_items_payment_def example_env_def
      empty_world_def save_fails_def)

subsection \<open>Ownership of gateway resources\<close>

lemma getPaymentMethod_cases:
  "getPaymentMethod E pid w =
     (case stripe E (stripe_log w) (PaymentMethodsRetrieve pid) of
        Inl e \<Rightarrow> (Inl (AppError ''Payment method not found'' 404),
                  w\<lparr>stripe_log := stripe_log w @ [(PaymentMethodsRetrieve pid, Inl e)],
                    logger := logger w @ [LogError ''Stripe get payment method error:'' e]\<rparr>)
      | Inr method \<Rightarrow>
          (Inr method,
           w\<lparr>stripe_log := stripe_log w @ [(PaymentMethodsRetrieve pid, Inr method)]\<rparr>))"
  by (simp add: getPaymentMethod_def try_catch_def and_then_def stripe_request_def
      logger_error_def throw_def Let_def split: sum.splits)

lemma getInvoice_cases:
  "getInvoice E iid w =
     (case stripe E (stripe_log w) (InvoicesRetrieve iid) of
        Inl e \<Rightarrow> (Inl (AppError ''Invoice not found'' 404),
                  w\<lparr>stripe_log := stripe_log w @ [(InvoicesRetrieve iid, Inl e)],
                    logger := logger w @ [LogError ''Stripe get invoice error:'' e]\<rparr>)
      | Inr invoice \<Rightarrow>
          (Inr invoice, w\<lparr>stripe_log := stripe_log w @ [(InvoicesRetrieve iid, Inr invoice)]\<rparr>))"
  by (simp add: getInvoice_def try_catch_def and_then_def stripe_request_def
      logger_error_def throw_def Let_def split: sum.splits)

lemma strict_neq_iff: "strict_neq a b \<longleftrightarrow> a = None \<or> a \<noteq> b"
  by (cases a; cases b) auto

lemma deletePaymentMethod_events:
  "events_since w (snd (deletePaymentMethod E rc pid w)) =
     (case rc of
        None \<Rightarrow> []
      | Some c \<Rightarrow>
         (case stripe E (stripe_log w) (PaymentMethodsRetrieve pid) of
            Inl e \<Rightarrow> [(PaymentMethodsRetrieve pid, Inl e)]
          | Inr method \<Rightarrow>
              if strict_neq (obj_customer method) (stripeCustomerId (doc c))
              then [(PaymentMethodsRetrieve pid, Inr method)]
              else [(PaymentMethodsRetrieve pid, Inr method),
                    (PaymentMethodsDetach pid,
                     stripe E (stripe_log w @ [(PaymentMethodsRetrieve pid, Inr method)])
                       (PaymentMethodsDetach pid))]))"
  apply (simp add: deletePaymentMethod_def events_since_def throw_def split: option.splits)
  apply (simp add: and_then_def getPaymentMethod_cases throw_def split: sum.splits)
  apply (auto simp: detachPaymentMethod_def try_catch_def and_then_def stripe_request_def
      logger_error_def logger_info_def throw_def return_def Let_def split: sum.splits)
  done

lemmas payment_run_defs =
  createPayment_def createPaymentWithInvoice_def attach_if_saving_def stripe_id_of_def
  try_catch_def and_then_def stripe_request_def return_def throw_def logger_info_def
  logger_error_def payment_error_def Let_def events_since_def

text \<open>
  C3, as stated, fails: \<open>createPayment\<close> hands the payment-method id of the request to
  the gateway without retrieving it. Here the payment method \<open>pm_2\<close> belongs to
  \<open>cus_2\<close>, the caller is \<open>cus_1\<close>, and the invoice is paid with \<open>pm_2\<close> with no
  ownership check before.
\<close>

theorem charge_without_ownership_check:
  "stripe example_env [] (PaymentMethodsRetrieve ''pm_2'')
     = Inr ((object ''pm_2'')\<lparr>obj_customer := Some ''cus_2''\<rparr>) \<and>
   map fst (events_since empty_world
      (snd (createPayment example_env (Some example_customer) example_body empty_world)))
     = [InvoiceItemsCreate ''cus_1'' 500 ''usd'' ''One-time payment'' None,
        InvoicesCreate ''cus_1'', InvoicesFinalizeInvoice ''in_1'',
        InvoicesPay ''in_1'' ''pm_2'', PaymentIntentsRetrieve (Some ''pi_1'')] \<and>
   \<not> checked_before ''pm_2'' (caller_account (Some example_customer)) False
      (events_since empty_world
        (snd (createPayment example_env (Some example_customer) example_body empty_world)))"
  by (simp add: payment_run_defs example_env_def example_customer_def example_stored_def
      example_body_def empty_world_def loaded_def object_def caller_account_def)

text \<open>
  C3, amended. Detaching a payment method comes after an ownership check: in every run
  of \<open>deletePaymentMethod\<close>, a detach call is preceded by a retrieval of that payment
  method that returned an object owned by the caller's Billing Account.
\<close>

theorem detach_after_ownership_check:
  "checked_before pid (caller_account rc) False
     (events_since w (snd (deletePaymentMethod E rc pid w)))"
  by (cases "caller_account rc")
     (auto simp: deletePaymentMethod_events caller_account_def strict_neq_iff
      split: option.splits sum.splits)

theorem detach_after_ownership_check_witness:
  "events_since empty_world
     (snd (deletePaymentMethod example_env
             (Some (example_customer\<lparr>doc := (doc example_customer)
                                       \<lparr>stripeCustomerId := Some ''cus_2''\<rparr>\<rparr>))
             ''pm_2'' empty_world))
     = [(PaymentMethodsRetrieve ''pm_2'', Inr ((object ''pm_2'')\<lparr>obj_customer := Some ''cus_2''\<rparr>)),
        (PaymentMethodsDetach ''pm_2'', Inr (object ''obj''))] \<and>
   checked_before ''pm_2'' (Some ''cus_2'') False
     (events_since empty_world
        (snd (deletePaymentMethod example_env
                (Some (example_customer\<lparr>doc := (doc example_customer)
                                          \<lparr>stripeCustomerId := Some ''cus_2''\<rparr>\<rparr>))
                ''pm_2'' empty_world)))"
  using detach_after_ownership_check
    [of "''pm_2''"
        "Some (example_customer\<lparr>doc := (doc example_customer)
                                  \<lparr>stripeCustomerId := Some ''cus_2''\<rparr>\<rparr>)"
        empty_world example_env]
  by (simp add: deletePaymentMethod_events caller_account_def example_env_def
      example_customer_def example_stored_def empty_world_def loaded_def object_def)

text \<open>
  C5. When the invoice or payment method that the gateway returns is owned by another
  Billing Account than the caller's, retrieving the invoice, sending the invoice and
  deleting the payment method end in the 404 error with a fixed message: the outcome
  does not depend on the resource, and no send or detach call is made.
\<close>

theorem foreign_resource_not_found:
  "(stripe E (stripe_log w) (InvoicesRetrieve iid) = Inr invoice \<and>
    obj_customer invoice \<noteq> stripeCustomerId (doc c) \<longrightarrow>
      fst (getInvoice_controller E (Some c) iid w) = Inl (AppError ''Invoice not found'' 404) \<and>
      fst (sendInvoice_controller E (Some c) iid w) = Inl (AppError ''Invoice not found'' 404) \<and>
      events_since w (snd (sendInvoice_controller E (Some c) iid w))
        = [(InvoicesRetrieve iid, Inr invoice)]) \<and>
   (stripe E (stripe_log w) (PaymentMethodsRetrieve pid) = Inr method \<and>
    obj_customer method \<noteq> stripeCustomerId (doc c) \<longrightarrow>
      fst (deletePaymentMethod E (Some c) pid w)
        = Inl (AppError ''Payment method not found'' 404) \<and>
      events_since w (snd (deletePaymentMethod E (Some c) pid w))
        = [(PaymentMethodsRetrieve pid, Inr method)])"
  by (auto simp: getInvoice_controller_def sendInvoice_controller_def deletePaymentMethod_def
      and_then_def getInvoice_cases getPaymentMethod_cases strict_neq_iff throw_def
      events_since_def)

theorem foreign_resource_not_found_witness:
  "stripe example_env (stripe_log empty_world) (InvoicesRetrieve ''in_7'')
     = Inr ((object ''in_7'')\<lparr>obj_customer := Some ''cus_2''\<rparr>) \<and>
   obj_customer ((object ''in_7'')\<lparr>obj_customer := Some ''cus_2''\<rparr>)
     \<noteq> stripeCustomerId (doc example_customer) \<and>
   stripe example_env (stripe_log empty_world) (PaymentMethodsRetrieve ''pm_2'')
     = Inr ((object ''pm_2'')\<lparr>obj_customer := Some ''cus_2''\<rparr>) \<and>
   obj_customer ((object ''pm_2'')\<lparr>obj_customer := Some ''cus_2''\<rparr>)
     \<noteq> stripeCustomerId (doc example_customer) \<and>
   fst (getInvoice_controller example_env (Some example_customer) ''in_7'' empty_world)
     = Inl (AppError ''Invoice not found'' 404) \<and>
   fst (sendInvoice_controller example_env (Some example_customer) ''in_7'' empty_world)
     = Inl (AppError ''Invoice not found'' 404) \<and>
   fst (deletePaymentMethod example_env (Some example_customer) ''pm_2'' empty_world)
     = Inl (AppError ''Payment method not found'' 404)"
  using foreign_resource_not_found
    [of example_env empty_world "''in_7''" "(object ''in_7'')\<lparr>obj_customer := Some ''cus_2''\<rparr>"
        example_customer "''pm_2''" "(object ''pm_2'')\<lparr>obj_customer := Some ''cus_2''\<rparr>"]
  by (simp add: example_env_def example_customer_def example_stored_def empty_world_def
      loaded_def object_def)

text \<open>
  A resource that does not exist gives the same outcome as one that belongs to someone
  else.
\<close>

lemma missing_resource_not_found:
  "stripe E (stripe_log w) (InvoicesRetrieve iid) = Inl e \<Longrightarrow>
     fst (getInvoice_controller E (Some c) iid w) = Inl (AppError ''Invoice not found'' 404)"
  "stripe E (stripe_log w) (PaymentMethodsRetrieve pid) = Inl e \<Longrightarrow>
     fst (deletePaymentMethod E (Some c) pid w) = Inl (AppError ''Payment method not found'' 404)"
  by (simp_all add: getInvoice_controller_def deletePaymentMethod_def and_then_def
      getInvoice_cases getPaymentMethod_cases)

subsection \<open>Registration\<close>

lemma find_None_iff_email:
  "find (\<lambda>c. c_email c = lowercase (trim email)) stored = None
     \<longleftrightarrow> \<not> email_registered stored email"
  by (auto simp: email_registered_def find_None_iff)

lemma register_duplicate:
  assumes "mongo_fault E (db w) (FindOne (rb_email b)) = None"
    and "email_registered (db w) (rb_email b)"
  shows "authController_register E b w = (Inl (AppError ''Email already registered'' 400), w)"
proof -
  from assms(2) have "find (\<lambda>c. c_email c = lowercase (trim (rb_email b))) (db w) \<noteq> None"
    by (simp add: find_None_iff_email)
  then show ?thesis
    using assms(1)
    by (auto simp: authController_register_def and_then_def Customer_findOne_def throw_def)
qed

lemma Customer_save_frame:
  "Customer_save E d (w\<lparr>stripe_log := l\<rparr>) =
     (fst (Customer_save E d w), (snd (Customer_save E d w))\<lparr>stripe_log := l\<rparr>)"
  by (simp add: Customer_save_def split: option.splits sum.splits)

lemma Customer_save_Inl:
  "fst (Customer_save E d w) = Inl e \<Longrightarrow> snd (Customer_save E d w) = w"
  by (auto simp: Customer_save_def split: option.splits sum.splits if_splits)

lemma createCustomer_ok:
  "stripe E (stripe_log w) c = Inr sc \<Longrightarrow>
   c = CustomersCreate (cc_email data) (cc_name data) (cc_phone data)
         (address_line1 (cc_address data)) \<Longrightarrow>
   createCustomer E data w = (Inr sc, w\<lparr>stripe_log := stripe_log w @ [(c, Inr sc)]\<rparr>)"
  by (simp add: createCustomer_def try_catch_def stripe_request_def Let_def)

lemma deleteCustomer_run:
  "deleteCustomer E i w =
     (Inr (),
      w\<lparr>stripe_log :=
          stripe_log w @ [(CustomersDel i, stripe E (stripe_log w) (CustomersDel i))],
        logger := logger w @ (case stripe E (stripe_log w) (CustomersDel i) of
                                 Inl e \<Rightarrow> [LogError ''Stripe delete customer error:'' e]
                               | Inr x \<Rightarrow> [])\<rparr>)"
  by (simp add: deleteCustomer_def try_catch_def and_then_def stripe_request_def
      logger_error_def return_def Let_def split: sum.splits)

lemma register_save_fails:
  assumes nofault: "mongo_fault E (db w) (FindOne (rb_email b)) = None"
    and fresh: "\<not> email_registered (db w) (rb_email b)"
    and created: "stripe E (stripe_log w) (create_call b) = Inr sc"
    and failed: "fst (Customer_save E (new_identity E (db w) b (obj_id sc)) w) = Inl e"
  shows "fst (authController_register E b w) = Inl e"
    and "db (snd (authController_register E b w)) = db w"
    and "stripe_log (snd (authController_register E b w)) = stripe_log w @
           [(create_call b, Inr sc),
            (CustomersDel (obj_id sc),
             stripe E (stripe_log w @ [(create_call b, Inr sc)]) (CustomersDel (obj_id sc)))]"
proof -
  let ?w1 = "w\<lparr>stripe_log := stripe_log w @ [(create_call b, Inr sc)]\<rparr>"
  let ?d = "new_identity E (db w) b (obj_id sc)"
  have find: "Customer_findOne E (rb_email b) w = (Inr None, w)"
    using nofault fresh by (simp add: Customer_findOne_def find_None_iff_email)
  have cc: "createCustomer E \<lparr>cc_email = rb_email b, cc_name = rb_name b,
                             cc_phone = Some (rb_phone b), cc_address = Some (rb_address b)\<rparr> w
            = (Inr sc, ?w1)"
    using created by (intro createCustomer_ok) (simp_all add: create_call_def)
  have save: "Customer_save E ?d ?w1 = (Inl e, ?w1)"
    using failed Customer_save_Inl [OF failed] by (simp add: Customer_save_frame)
  have "authController_register E b w =
          and_then (deleteCustomer E (obj_id sc)) (\<lambda>_. throw e) ?w1"
    using find cc save
    by (simp add: authController_register_def and_then_def try_catch_def new_identity_def)
  then have run: "authController_register E b w =
      (Inl e, snd (deleteCustomer E (obj_id sc) ?w1))"
    by (simp add: and_then_def deleteCustomer_run throw_def)
  show "fst (authController_register E b w) = Inl e"
    by (simp add: run)
  show "db (snd (authController_register E b w)) = db w"
    by (simp add: run deleteCustomer_run)
  show "stripe_log (snd (authController_register E b w)) = stripe_log w @
           [(create_call b, Inr sc),
            (CustomersDel (obj_id sc),
             stripe E (stripe_log w @ [(create_call b, Inr sc)]) (CustomersDel (obj_id sc)))]"
    by (simp add: run deleteCustomer_run)
qed

lemma live_accounts_deleted:
  "live_accounts (l @ [(create_call b, Inr sc), (CustomersDel (obj_id sc), Inr x)])
     = removeAll (obj_id sc) (live_accounts l)"
  by (simp add: live_accounts_def create_call_def)

lemmas register_defs =
  authController_register_def Customer_findOne_def createCustomer_def Customer_save_def
  deleteCustomer_def try_catch_def and_then_def stripe_request_def return_def throw_def
  logger_info_def logger_error_def Let_def events_since_def

text \<open>
  C1, as stated, fails: when the save fails and the compensating delete fails too, the
  failure of the delete is logged and swallowed, and the Billing Account that was just
  created stays at the gateway with no Customer Identity referring to it.
\<close>

theorem failed_delete_leaves_account_dangling:
  "fst (authController_register broken_env example_registration empty_world)
     = Inl (Exception ''ValidationError'' ''Customer validation failed'') \<and>
   db (snd (authController_register broken_env example_registration empty_world)) = [] \<and>
   dangling_accounts (snd (authController_register broken_env example_registration empty_world))
     = [''cus_1'']"
  by (simp add: register_defs broken_env_def example_env_def example_registration_def
      empty_world_def dangling_accounts_def live_accounts_def object_def)

text \<open>
  C1, amended. A registration with an email that is already registered fails with
  "Email already registered" (400) and changes nothing: no gateway call is made and no
  Customer Identity is created. A registration whose save fails after the gateway
  created the Billing Account fails with the error of the save, creates no Customer
  Identity, and calls the gateway exactly twice: create, then delete of the account just
  created; when that delete succeeds the account is not left dangling.
\<close>

theorem failed_registration_compensates:
  "(mongo_fault E (db w) (FindOne (rb_email b)) = None \<and>
    email_registered (db w) (rb_email b)
      \<longrightarrow> authController_register E b w
            = (Inl (AppError ''Email already registered'' 400), w)) \<and>
   (mongo_fault E (db w) (FindOne (rb_email b)) = None \<and>
    \<not> email_registered (db w) (rb_email b) \<and>
    stripe E (stripe_log w) (create_call b) = Inr sc \<and>
    fst (Customer_save E (new_identity E (db w) b (obj_id sc)) w) = Inl e
      \<longrightarrow> compensated E b w sc e)"
proof (intro conjI impI)
  assume "mongo_fault E (db w) (FindOne (rb_email b)) = None \<and>
          email_registered (db w) (rb_email b)"
  then show "authController_register E b w
               = (Inl (AppError ''Email already registered'' 400), w)"
    by (simp add: register_duplicate)
next
  assume a: "mongo_fault E (db w) (FindOne (rb_email b)) = None \<and>
    \<not> email_registered (db w) (rb_email b) \<and>
    stripe E (stripe_log w) (create_call b) = Inr sc \<and>
    fst (Customer_save E (new_identity E (db w) b (obj_id sc)) w) = Inl e"
  note r = register_save_fails [of E w b sc e]
  have "obj_id sc \<notin> set (dangling_accounts (snd (authController_register E b w)))"
    if "\<not> isl (stripe E (stripe_log w @ [(create_call b, Inr sc)]) (CustomersDel (obj_id sc)))"
  proof -
    from that obtain x where
      "stripe E (stripe_log w @ [(create_call b, Inr sc)]) (CustomersDel (obj_id sc)) = Inr x"
      by (cases "stripe E (stripe_log w @ [(create_call b, Inr sc)]) (CustomersDel (obj_id sc))")
         auto
    then show ?thesis
      using a by (simp add: dangling_accounts_def r(3) live_accounts_deleted)
  qed
  then show "compensated E b w sc e"
    using a by (simp add: compensated_def Let_def r events_since_def)
qed

theorem failed_registration_compensates_witness:
  "mongo_fault example_env (db (empty_world\<lparr>db := [example_stored]\<rparr>))
       (FindOne (rb_email example_registration)) = None \<and>
   email_registered (db (empty_world\<lparr>db := [example_stored]\<rparr>)) (rb_email example_registration) \<and>
   authController_register example_env example_registration (empty_world\<lparr>db := [example_stored]\<rparr>)
     = (Inl (AppError ''Email already registered'' 400), empty_world\<lparr>db := [example_stored]\<rparr>) \<and>
   \<not> email_registered (db empty_world) (rb_email example_registration) \<and>
   stripe (example_env\<lparr>mongo_fault := rejects_save\<rparr>) (stripe_log empty_world)
       (create_call example_registration) = Inr (object ''cus_1'') \<and>
   fst (Customer_save (example_env\<lparr>mongo_fault := rejects_save\<rparr>)
          (new_identity (example_env\<lparr>mongo_fault := rejects_save\<rparr>) (db empty_world)
             example_registration (obj_id (object ''cus_1''))) empty_world)
     = Inl (Exception ''ValidationError'' ''Customer validation failed'') \<and>
   compensated (example_env\<lparr>mongo_fault := rejects_save\<rparr>) example_registration empty_world
     (object ''cus_1'') (Exception ''ValidationError'' ''Customer validation failed'')"
  using failed_registration_compensates
    [of example_env "empty_world\<lparr>db := [example_stored]\<rparr>" example_registration]
    failed_registration_compensates
    [of "example_env\<lparr>mongo_fault := rejects_save\<rparr>" empty_world example_registration
        "object ''cus_1''" "Exception ''ValidationError'' ''Customer validation failed''"]
  by (simp add: example_env_def empty_world_def example_registration_def example_stored_def
      email_registered_def create_call_def Customer_save_def trim_def lowercase_def
      is_space_def lower_char_def)

subsection \<open>Authentication\<close>

lemmas auth_defs =
  authenticateToken_def bearer_token_def jwt_verify_io_def Customer_findById_select_def
  try_catch_def and_then_def return_def throw_def logger_error_def

text \<open>
  C8 fails on the code: a missing token gives 401 "Access token required" and a token
  that does not verify gives 401 "Invalid token", but an expired token gives
  "Invalid token" too. \<open>TokenExpiredError\<close> is a subclass of \<open>JsonWebTokenError\<close>
  and the handler tests for \<open>JsonWebTokenError\<close> first, so its "Token expired" branch
  is never taken.
\<close>

theorem expired_token_reported_invalid:
  "fst (authenticateToken example_env None empty_world)
     = Inr (Responded (error_response 401 ''Access token required'')) \<and>
   fst (authenticateToken malformed_env (Some ''Bearer abc'') empty_world)
     = Inr (Responded (error_response 401 ''Invalid token'')) \<and>
   fst (authenticateToken expired_env (Some ''Bearer abc'') empty_world)
     = Inr (Responded (error_response 401 ''Invalid token''))"
  by (simp add: auth_defs expired_env_def malformed_env_def example_env_def empty_world_def)

text \<open>The same for every environment and every token.\<close>

lemma TokenExpiredError_subclass:
  "instanceof_TokenExpiredError e \<Longrightarrow> instanceof_JsonWebTokenError e"
  by (cases e) auto

lemma expired_token_invalid:
  assumes "bearer_token authorization = Some token" and "token \<noteq> []"
    and "jwt_verify E token = Inl e" and "instanceof_TokenExpiredError e"
  shows "authenticateToken E authorization w
           = (Inr (Responded (error_response 401 ''Invalid token'')), w)"
  using assms TokenExpiredError_subclass [OF assms(4)]
  by (simp add: authenticateToken_def jwt_verify_io_def try_catch_def and_then_def return_def)

subsection \<open>Amounts that are not positive\<close>

lemmas validate_defs =
  validate_def check_rule_def range_errors_def mk_rule_def
  paymentValidation_createPayment_def paymentValidation_createPaymentWithItems_def

lemmas route_defs =
  post_create_payment_with_items_def route_def decode_ItemsBody_def
  createPaymentWithItems_controller_def createPaymentWithItems_def promise_all_def
  attach_if_saving_def stripe_id_of_def
  stripe_request_def logger_info_def payment_error_def Let_def events_since_def

text \<open>
  The rule set of \<open>create-payment-with-items\<close> accepts an array of items whatever
  their amounts are: its rule for \<open>items\<close> has a type and no bound.
\<close>

lemma items_rule_ignores_amounts:
  "check_rule E (mk_rule ''items'' True TArray) (Arr items) = []"
  by (simp add: check_rule_def mk_rule_def range_errors_def split: option.splits)

text \<open>
  C2 fails on the code, in the multi-item flow. The claim: a zero or negative amount of
  any line item is rejected before any gateway call. The rule set of
  \<open>create-payment-with-items\<close> lacks the \<open>min: 1\<close> that the rule set of
  \<open>create-payment\<close> has on \<open>amount\<close>, the controller only checks that the array is
  not empty, and \<open>createPaymentWithItems\<close> checks nothing. A request with one item of
  amount 0, and one with an item of amount -500, pass authentication and validation;
  the gateway is asked to create the invoice item with that amount, then to create,
  finalize and pay the invoice, and the response is 200.
\<close>

theorem nonpositive_item_reaches_gateway:
  "map_option (\<lambda>r. (map_sum id status (fst r), map fst (stripe_log (snd r))))
     (post_create_payment_with_items example_env (Some ''Bearer jwt.id_1'') zero_item_body
        (empty_world\<lparr>db := [example_stored]\<rparr>))
   = Some (Inr 200,
           [InvoiceItemsCreate ''cus_1'' 0 ''usd'' ''A'' (Some 1),
            InvoicesCreate ''cus_1'', InvoicesFinalizeInvoice ''in_1'',
            InvoicesPay ''in_1'' ''pm_1'', PaymentIntentsRetrieve (Some ''pi_1'')]) \<and>
   map_option (\<lambda>r. (map_sum id status (fst r), map fst (stripe_log (snd r))))
     (post_create_payment_with_items example_env (Some ''Bearer jwt.id_1'') negative_item_body
        (empty_world\<lparr>db := [example_stored]\<rparr>))
   = Some (Inr 200,
           [InvoiceItemsCreate ''cus_1'' (- 500) ''usd'' ''B'' (Some 2),
            InvoicesCreate ''cus_1'', InvoicesFinalizeInvoice ''in_1'',
            InvoicesPay ''in_1'' ''pm_1'', PaymentIntentsRetrieve (Some ''pi_1'')])"
  by (simp add: route_defs auth_defs validate_defs zero_item_body_def negative_item_body_def
      example_env_def example_stored_def empty_world_def loaded_def object_def)

text \<open>
  The sibling route does what this one misses. On \<open>create-payment\<close>, an amount whose
  \<open>Number(value)\<close> is below 1 (a number, or a numeric string) fails the validation,
  and the request ends without a gateway call: in the 400 of the validation, or in the
  401 or 500 of the authentication before it.
\<close>

lemma single_amount_rejected:
  assumes "js_Number E (req_body ''amount'') = Some n" and "n < 1"
  shows "\<exists>m. validate E paymentValidation_createPayment req_body w = (Inl (AppError m 400), w)"
  using assms
  by (cases "req_body ''amount''") (auto simp: validate_defs throw_def Let_def)

lemma authenticateToken_outcome:
  "\<exists>out w1. authenticateToken E a w = (Inr out, w1) \<and> stripe_log w1 = stripe_log w \<and>
     (\<forall>r. out = Responded r \<longrightarrow> status r = 401 \<or> status r = 500)"
  by (auto simp: authenticateToken_def try_catch_def and_then_def return_def jwt_verify_io_def
      Customer_findById_select_def logger_error_def error_response_def
      split: option.splits sum.splits)

lemma single_amount_route:
  assumes "js_Number E (req_body ''amount'') = Some n" and "n < 1"
  shows "\<exists>r. post_create_payment E authorization req_body w = Some r \<and> not_processed w r"
proof -
  from authenticateToken_outcome [of E authorization w] obtain out w1 where
    a: "authenticateToken E authorization w = (Inr out, w1)"
    and l: "stripe_log w1 = stripe_log w"
    and st: "\<forall>r. out = Responded r \<longrightarrow> status r = 401 \<or> status r = 500"
    by blast
  show ?thesis
  proof (cases out)
    case (Responded r)
    with a l st show ?thesis
      by (simp add: post_create_payment_def route_def not_processed_def events_since_def)
  next
    case (Next customer token)
    from single_amount_rejected [of E req_body n w1] assms obtain m where
      "validate E paymentValidation_createPayment req_body w1 = (Inl (AppError m 400), w1)"
      by blast
    with a l Next show ?thesis
      by (simp add: post_create_payment_def route_def not_processed_def events_since_def)
  qed
qed

subsection \<open>Profile update\<close>









subsection \<open>The two checkout flows\<close>

lemma promise_all_single:
  "and_then (promise_all E [m]) (\<lambda>_. k) = and_then m (\<lambda>_. k)"
  by (rule ext)
     (simp add: and_then_def promise_all_def first_rejection_def split: prod.splits sum.splits)

lemma invoice_refines:
  "createPaymentWithInvoice E d =
     spec_checkout E ''Stripe payment error:'' (pd_customerId d) (pd_paymentMethodId d)
       (pd_currency d) (pd_savePaymentMethod d) (single_line d)"
  unfolding createPaymentWithInvoice_def spec_checkout_def attach_if_saving_def
    payment_error_def single_line_def line_call_def
  by (simp add: promise_all_single)

lemma items_refines:
  "createPaymentWithItems E d =
     spec_checkout E ''Stripe payment with items error:'' (pi_customerId d)
       (pi_paymentMethodId d) (pi_currency d) (pi_savePaymentMethod d) (item_lines d)"
  unfolding createPaymentWithItems_def spec_checkout_def attach_if_saving_def
    payment_error_def item_lines_def line_call_def
  by (simp add: comp_def)

lemma and_then_InrE:
  assumes "and_then m f w = (Inr r, w')"
  obtains a w1 where "m w = (Inr a, w1)" and "f a w1 = (Inr r, w')"
  using assms by (auto simp: and_then_def split: prod.splits sum.splits)

lemma stripe_request_InrD:
  "stripe_request E c w = (Inr a, w') \<Longrightarrow> stripe_log w' = stripe_log w @ [(c, Inr a)]"
  by (auto simp: stripe_request_def Let_def)

lemma lines_settled:
  "settle_all (map (\<lambda>l. stripe_request E (line_call account currency l)) lines) w = (rs, w')
   \<Longrightarrow> \<exists>evs. stripe_log w' = stripe_log w @ evs \<and>
             (rejections rs = [] \<longrightarrow> charged_total evs = lines_total lines)"
proof (induction lines arbitrary: w rs)
  case Nil
  then show ?case by (simp add: charged_total_def lines_total_def)
next
  case (Cons l lines)
  let ?c = "line_call account currency l"
  from Cons.prems obtain r w1 rs' where
    first: "stripe_request E ?c w = (r, w1)"
    and rest: "settle_all (map (\<lambda>l. stripe_request E (line_call account currency l)) lines) w1
                 = (rs', w')"
    and rs: "rs = r # rs'"
    by (auto split: prod.splits)
  from Cons.IH [OF rest] obtain evs where
    evs: "stripe_log w' = stripe_log w1 @ evs"
      "rejections rs' = [] \<longrightarrow> charged_total evs = lines_total lines"
    by blast
  from first have l1: "stripe_log w1 = stripe_log w @ [(?c, r)]"
    by (auto simp: stripe_request_def Let_def)
  with evs(1) have log: "stripe_log w' = stripe_log w @ ((?c, r) # evs)"
    by simp
  have "charged_total ((?c, r) # evs) = lines_total (l # lines)" if "rejections rs = []"
  proof (cases r)
    case (Inl e)
    with that rs show ?thesis by simp
  next
    case (Inr a)
    with that rs evs(2) show ?thesis
      by (simp add: charged_total_def lines_total_def line_call_def)
  qed
  with log show ?case by blast
qed

lemma lines_charged:
  assumes "promise_all E (map (\<lambda>l. stripe_request E (line_call account currency l)) lines) w
             = (Inr rs, w')"
  shows "\<exists>evs. stripe_log w' = stripe_log w @ evs \<and> charged_total evs = lines_total lines"
proof -
  obtain ss w1 where
    st: "settle_all (map (\<lambda>l. stripe_request E (line_call account currency l)) lines) w
           = (ss, w1)"
    by (cases "settle_all (map (\<lambda>l. stripe_request E (line_call account currency l)) lines) w")
  with assms have "rejections ss = []" and "w1 = w'"
    by (auto simp: promise_all_def split: list.splits)
  with lines_settled [OF st] show ?thesis by blast
qed

lemma save_steps_free:
  assumes "(if persist
           then and_then (stripe_request E (PaymentMethodsAttach method account))
                  (\<lambda>_. and_then (stripe_request E (CustomersUpdateDefault account method))
                     (\<lambda>_. return ()))
           else return ()) w = (Inr u, w')"
  shows "\<exists>evs. stripe_log w' = stripe_log w @ evs \<and> charged_total evs = 0"
proof (cases persist)
  case False
  with assms have "w' = w" by (simp add: return_def)
  then show ?thesis by (simp add: charged_total_def)
next
  case True
  with assms obtain a w1 b w2 where
    "stripe_request E (PaymentMethodsAttach method account) w = (Inr a, w1)"
    "stripe_request E (CustomersUpdateDefault account method) w1 = (Inr b, w2)"
    "w' = w2"
    by (auto elim!: and_then_InrE simp: return_def)
  then have "stripe_log w' = stripe_log w @
      [(PaymentMethodsAttach method account, Inr a), (CustomersUpdateDefault account method, Inr b)]"
    by (simp add: stripe_request_InrD)
  then show ?thesis by (auto simp: charged_total_def)
qed

lemma try_catch_InrE:
  assumes "try_catch m h w = (Inr r, w')" and "\<And>e w1. fst (h e w1) \<noteq> Inr r"
  shows "m w = (Inr r, w')"
  using assms by (auto simp: try_catch_def split: prod.splits sum.splits) (metis fst_conv)

lemma spec_checkout_charged:
  assumes "fst (spec_checkout E label account method currency persist lines w) = Inr r"
  shows "charged_total
           (events_since w (snd (spec_checkout E label account method currency persist lines w)))
         = lines_total lines"
proof -
  obtain w' where run: "spec_checkout E label account method currency persist lines w = (Inr r, w')"
    using assms by (metis prod.collapse)
  have handler: "fst ((\<lambda>failure. and_then (logger_error label failure)
          (\<lambda>_. if error_type failure = Some ''StripeCardError''
                then throw (AppError (error_message failure) 400)
                else throw (AppError ''Payment processing failed'' 500))) e w1) \<noteq> Inr r" for e w1
    by (simp add: and_then_def logger_error_def throw_def)
  note body = try_catch_InrE [OF run [unfolded spec_checkout_def] handler]
  from body obtain u w1 where
    s1: "(if persist
           then and_then (stripe_request E (PaymentMethodsAttach method account))
                  (\<lambda>_. and_then (stripe_request E (CustomersUpdateDefault account method))
                     (\<lambda>_. return ()))
           else return ()) w = (Inr u, w1)"
    and k1: "and_then
          (promise_all E (map (\<lambda>l. stripe_request E (line_call account currency l)) lines))
       (\<lambda>_. and_then (stripe_request E (InvoicesCreate account))
       (\<lambda>draft. and_then (stripe_request E (InvoicesFinalizeInvoice (obj_id draft)))
       (\<lambda>opened. and_then (stripe_request E (InvoicesPay (obj_id draft) method))
       (\<lambda>paid. and_then (stripe_request E (PaymentIntentsRetrieve (payment_intent paid)))
       (\<lambda>intent. return
          \<lparr>res_invoice = paid, res_paymentIntent = intent,
           res_invoiceUrl = hosted_invoice_url paid,
           res_invoicePdf = invoice_pdf paid\<rparr>))))) w1 = (Inr r, w')"
    by (rule and_then_InrE)
  from k1 obtain rs w2 draft w3 opened w4 paid w5 intent w6 where
    s2: "promise_all E (map (\<lambda>l. stripe_request E (line_call account currency l)) lines) w1 = (Inr rs, w2)"
    and s3: "stripe_request E (InvoicesCreate account) w2 = (Inr draft, w3)"
    and s4: "stripe_request E (InvoicesFinalizeInvoice (obj_id draft)) w3 = (Inr opened, w4)"
    and s5: "stripe_request E (InvoicesPay (obj_id draft) method) w4 = (Inr paid, w5)"
    and s6: "stripe_request E (PaymentIntentsRetrieve (payment_intent paid)) w5 = (Inr intent, w6)"
    and "w' = w6"
    by (auto elim!: and_then_InrE simp: return_def)
  from save_steps_free [OF s1] obtain evs1 where
    e1: "stripe_log w1 = stripe_log w @ evs1" "charged_total evs1 = 0" by blast
  from lines_charged [OF s2] obtain evs2 where
    e2: "stripe_log w2 = stripe_log w1 @ evs2" "charged_total evs2 = lines_total lines" by blast
  have "stripe_log w' = stripe_log w @ evs1 @ evs2 @
          [(InvoicesCreate account, Inr draft),
           (InvoicesFinalizeInvoice (obj_id draft), Inr opened),
           (InvoicesPay (obj_id draft) method, Inr paid),
           (PaymentIntentsRetrieve (payment_intent paid), Inr intent)]"
    using e1(1) e2(1) stripe_request_InrD [OF s3] stripe_request_InrD [OF s4]
      stripe_request_InrD [OF s5] stripe_request_InrD [OF s6] \<open>w' = w6\<close>
    by simp
  then show ?thesis
    using e1(2) e2(2) by (simp add: run events_since_def charged_total_def)
qed

lemmas items_run_defs =
  createPaymentWithItems_def createPaymentWithInvoice_def attach_if_saving_def promise_all_def
  try_catch_def and_then_def stripe_request_def return_def throw_def logger_error_def
  payment_error_def Let_def events_since_def

text \<open>
  C9, as stated, fails: a quantity of 0 is sent to the gateway as 1. The two inputs have
  the same Billing Account, payment method and currency, and the same total, 500; the
  single-amount flow has 500 charged and the multi-item flow 600.
\<close>

theorem zero_quantity_is_charged_once:
  "pd_customerId example_payment = pi_customerId zero_quantity_payment \<and>
   pd_paymentMethodId example_payment = pi_paymentMethodId zero_quantity_payment \<and>
   pd_currency example_payment = pi_currency zero_quantity_payment \<and>
   pd_savePaymentMethod example_payment = pi_savePaymentMethod zero_quantity_payment \<and>
   pd_amount example_payment = items_total (pi_items zero_quantity_payment) \<and>
   charged_total (events_since empty_world
      (snd (createPaymentWithInvoice example_env example_payment empty_world))) = 500 \<and>
   charged_total (events_since empty_world
      (snd (createPaymentWithItems example_env zero_quantity_payment empty_world))) = 600"
  by (simp add: items_run_defs example_payment_def zero_quantity_payment_def example_env_def
      empty_world_def object_def items_total_def charged_total_def)

text \<open>
  C9, amended. Both flows are the checkout machine of the specification, run on the
  line items each derives: the single-amount flow on one line with the amount, the
  description (or "One-time payment") and no quantity, the multi-item flow on one line
  per item with the item's quantity, read as 1 when it is absent or 0. So they make the
  same downstream calls: invoice creation, finalization, payment with the method
  supplied, retrieval of the payment intent. When an attempt succeeds, the total charged
  is the amount in the single-amount flow and the sum of amount times quantity (absent
  or 0 read as 1) in the multi-item flow; two inputs for which these are equal are
  charged the same total.
\<close>

theorem checkout_flows_share_machine:
  "createPaymentWithInvoice E d =
     spec_checkout E ''Stripe payment error:'' (pd_customerId d) (pd_paymentMethodId d)
       (pd_currency d) (pd_savePaymentMethod d) (single_line d) \<and>
   createPaymentWithItems E d' =
     spec_checkout E ''Stripe payment with items error:'' (pi_customerId d')
       (pi_paymentMethodId d') (pi_currency d') (pi_savePaymentMethod d') (item_lines d') \<and>
   (\<not> isl (fst (createPaymentWithInvoice E d w)) \<longrightarrow>
      charged_total (events_since w (snd (createPaymentWithInvoice E d w))) = pd_amount d) \<and>
   (\<not> isl (fst (createPaymentWithItems E d' w')) \<longrightarrow>
      charged_total (events_since w' (snd (createPaymentWithItems E d' w')))
        = sent_total (pi_items d'))"
proof (intro conjI impI)
  show "createPaymentWithInvoice E d =
     spec_checkout E ''Stripe payment error:'' (pd_customerId d) (pd_paymentMethodId d)
       (pd_currency d) (pd_savePaymentMethod d) (single_line d)"
    by (rule invoice_refines)
  show "createPaymentWithItems E d' =
     spec_checkout E ''Stripe payment with items error:'' (pi_customerId d')
       (pi_paymentMethodId d') (pi_currency d') (pi_savePaymentMethod d') (item_lines d')"
    by (rule items_refines)
next
  assume "\<not> isl (fst (createPaymentWithInvoice E d w))"
  then obtain r where "fst (createPaymentWithInvoice E d w) = Inr r"
    by (cases "fst (createPaymentWithInvoice E d w)") auto
  then have "charged_total (events_since w (snd (createPaymentWithInvoice E d w)))
               = lines_total (single_line d)"
    unfolding invoice_refines by (rule spec_checkout_charged)
  then show "charged_total (events_since w (snd (createPaymentWithInvoice E d w))) = pd_amount d"
    by (simp add: lines_total_def single_line_def)
next
  assume "\<not> isl (fst (createPaymentWithItems E d' w'))"
  then obtain r where "fst (createPaymentWithItems E d' w') = Inr r"
    by (cases "fst (createPaymentWithItems E d' w')") auto
  then have "charged_total (events_since w' (snd (createPaymentWithItems E d' w')))
               = lines_total (item_lines d')"
    unfolding items_refines by (rule spec_checkout_charged)
  then show "charged_total (events_since w' (snd (createPaymentWithItems E d' w')))
               = sent_total (pi_items d')"
    by (simp add: lines_total_def item_lines_def sent_total_def comp_def)
qed

theorem checkout_flows_share_machine_witness:
  "\<not> isl (fst (createPaymentWithInvoice example_env example_payment empty_world)) \<and>
   \<not> isl (fst (createPaymentWithItems example_env example_items_payment empty_world)) \<and>
   charged_total (events_since empty_world
      (snd (createPaymentWithInvoice example_env example_payment empty_world))) = 500 \<and>
   charged_total (events_since empty_world
      (snd (createPaymentWithItems example_env example_items_payment empty_world))) = 700"
proof -
  have a: "\<not> isl (fst (createPaymentWithInvoice example_env example_payment empty_world))"
    by (simp add: items_run_defs example_payment_def example_env_def empty_world_def)
  have b: "\<not> isl (fst (createPaymentWithItems example_env example_items_payment empty_world))"
    by (simp add: items_run_defs example_items_payment_def example_env_def empty_world_def)
  note t = checkout_flows_share_machine
             [of example_env example_payment example_items_payment empty_world empty_world]
  from t a have c: "charged_total (events_since empty_world
      (snd (createPaymentWithInvoice example_env example_payment empty_world)))
        = pd_amount example_payment"
    by blast
  from t b have d: "charged_total (events_since empty_world
      (snd (createPaymentWithItems example_env example_items_payment empty_world)))
        = sent_total (pi_items example_items_payment)"
    by blast
  have e: "pd_amount example_payment = 500"
    by (simp add: example_payment_def)
  have f: "sent_total (pi_items example_items_payment) = 700"
    by (simp add: example_items_payment_def sent_total_def)
  from a b c d e f show ?thesis by simp
qed

subsection \<open>Passwords\<close>

lemma keeps_return: "Q a \<Longrightarrow> keeps E (return a) Q"
  by (simp add: keeps_def return_def)

lemma keeps_throw: "keeps E (throw e) Q"
  by (simp add: keeps_def throw_def)

lemma keeps_and_then:
  assumes "keeps E m Q" and "\<And>a. Q a \<Longrightarrow> keeps E (f a) R"
  shows "keeps E (and_then m f) R"
  unfolding keeps_def
proof (intro allI impI)
  fix w :: world assume inv: "credentials_hashed E (db w)"
  obtain r w1 where mw: "m w = (r, w1)" by (cases "m w")
  from assms(1) inv mw have inv1: "credentials_hashed E (db w1)"
    and q: "\<And>a. r = Inr a \<Longrightarrow> Q a"
    by (auto simp: keeps_def)
  show "credentials_hashed E (db (snd (and_then m f w))) \<and>
        (\<forall>a. fst (and_then m f w) = Inr a \<longrightarrow> R a)"
  proof (cases r)
    case (Inl e)
    with mw inv1 show ?thesis by (simp add: and_then_def)
  next
    case (Inr a)
    with q have "keeps E (f a) R" by (simp add: assms(2))
    with inv1 have "credentials_hashed E (db (snd (f a w1))) \<and>
        (\<forall>b. fst (f a w1) = Inr b \<longrightarrow> R b)"
      by (simp add: keeps_def)
    with mw Inr show ?thesis by (simp add: and_then_def)
  qed
qed

lemma keeps_try_catch:
  assumes "keeps E m Q" and "\<And>e. keeps E (h e) Q"
  shows "keeps E (try_catch m h) Q"
  unfolding keeps_def
proof (intro allI impI)
  fix w :: world assume inv: "credentials_hashed E (db w)"
  obtain r w1 where mw: "m w = (r, w1)" by (cases "m w")
  from assms(1) inv mw have inv1: "credentials_hashed E (db w1)"
    and q: "\<And>a. r = Inr a \<Longrightarrow> Q a"
    by (auto simp: keeps_def)
  show "credentials_hashed E (db (snd (try_catch m h w))) \<and>
        (\<forall>a. fst (try_catch m h w) = Inr a \<longrightarrow> Q a)"
  proof (cases r)
    case (Inl e)
    from assms(2) [of e] inv1 have "credentials_hashed E (db (snd (h e w1))) \<and>
        (\<forall>b. fst (h e w1) = Inr b \<longrightarrow> Q b)"
      by (simp add: keeps_def)
    with mw Inl show ?thesis by (simp add: try_catch_def)
  next
    case (Inr a)
    with mw inv1 q show ?thesis by (simp add: try_catch_def)
  qed
qed

lemma keeps_weaken: "keeps E m Q \<Longrightarrow> (\<And>a. Q a \<Longrightarrow> R a) \<Longrightarrow> keeps E m R"
  by (auto simp: keeps_def)

lemma keeps_db_arg: "(\<And>x. keeps E (m x) Q) \<Longrightarrow> keeps E (\<lambda>w. m (db w) w) Q"
  by (auto simp: keeps_def)

lemma keeps_frame: "(\<And>w. db (snd (m w)) = db w) \<Longrightarrow> keeps E m (\<lambda>_. True)"
  by (simp add: keeps_def)

lemma keeps_stripe_request: "keeps E (stripe_request E c) (\<lambda>_. True)"
  by (rule keeps_frame) (simp add: stripe_request_def Let_def)

lemma keeps_gcs_request: "keeps E (gcs_request E c) (\<lambda>_. True)"
  by (rule keeps_frame) (simp add: gcs_request_def Let_def)

lemma keeps_logger_error: "keeps E (logger_error l e) (\<lambda>_. True)"
  by (rule keeps_frame) (simp add: logger_error_def)

lemma keeps_logger_info: "keeps E (logger_info l) (\<lambda>_. True)"
  by (rule keeps_frame) (simp add: logger_info_def)

lemma keeps_if: "keeps E m Q \<Longrightarrow> keeps E n Q \<Longrightarrow> keeps E (if b then m else n) Q"
  by simp

lemmas keeps_intros =
  keeps_and_then [where Q = "\<lambda>_. True"] keeps_try_catch keeps_return keeps_throw
  keeps_stripe_request keeps_gcs_request keeps_logger_error keeps_logger_info keeps_if

lemma keeps_createCustomer: "keeps E (createCustomer E data) (\<lambda>_. True)"
  unfolding createCustomer_def by (intro keeps_intros)

lemma keeps_updateCustomer: "keeps E (updateCustomer E i data) (\<lambda>_. True)"
  unfolding updateCustomer_def by (intro keeps_intros)

lemma keeps_deleteCustomer: "keeps E (deleteCustomer E i) (\<lambda>_. True)"
  unfolding deleteCustomer_def by (intro keeps_intros)

lemma keeps_deleteFile: "keeps E (deleteFile E url) (\<lambda>_. True)"
  unfolding deleteFile_def
  by (auto split: option.splits intro!: keeps_intros)

lemma keeps_uploadFile: "keeps E (uploadFile E file path) (\<lambda>_. True)"
  unfolding uploadFile_def Let_def
  by (auto split: option.splits intro!: keeps_intros)


lemma keeps_findOne:
  "keeps E (Customer_findOne E email)
     (\<lambda>r. \<forall>c. r = Some c \<longrightarrow> \<not> isNew c \<and> ''password'' \<notin> set (modifiedPaths c))"
  by (auto simp: keeps_def Customer_findOne_def loaded_def split: option.splits)

lemma keeps_findById:
  "keeps E (Customer_findById_select E ident)
     (\<lambda>r. \<forall>c. r = Some c \<longrightarrow>
        \<not> isNew c \<and> ''password'' \<notin> set (modifiedPaths c) \<and> c_password (doc c) = None)"
  by (auto simp: keeps_def Customer_findById_select_def loaded_def split: option.splits)

lemma keeps_findByIdAndDelete: "keeps E (Customer_findByIdAndDelete E ident) (\<lambda>_. True)"
  by (auto simp: keeps_def Customer_findByIdAndDelete_def credentials_hashed_def
      split: option.splits)

lemma keeps_save_new:
  "keeps E
     (Customer_save E (new_Customer E stored name email address phone password stripeId))
     (\<lambda>_. True)"
  unfolding keeps_def
proof (intro allI impI conjI)
  fix w :: world assume inv: "credentials_hashed E (db w)"
  let ?d = "new_Customer E stored name email address phone password stripeId"
  show "credentials_hashed E (db (snd (Customer_save E ?d w)))"
  proof (cases "bcrypt_hash E password 10")
    case (Inl e)
    then show ?thesis
      using inv by (simp add: Customer_save_def pre_save_def new_Customer_def split: option.splits)
  next
    case (Inr h)
    then show ?thesis
      using inv
      by (auto simp: Customer_save_def pre_save_def new_Customer_def credentials_hashed_def
          split: option.splits)
  qed
qed simp

lemma write_paths_password:
  "''password'' \<notin> set (modifiedPaths d) \<Longrightarrow> c_password (write_paths d s) = c_password s"
  by (simp add: write_paths_def)

lemma keeps_save_loaded:
  assumes "\<not> isNew d" and "''password'' \<notin> set (modifiedPaths d)"
  shows "keeps E (Customer_save E d)
           (\<lambda>r. \<not> isNew r \<and> ''password'' \<notin> set (modifiedPaths r)
                 \<and> c_password (doc r) = c_password (doc d))"
  using assms
  by (auto simp: keeps_def Customer_save_def pre_save_def credentials_hashed_def
      write_paths_password split: option.splits)

lemma keeps_generateAuthToken: "keeps E (generateAuthToken E d) (\<lambda>_. True)"
  by (rule keeps_frame) (simp add: generateAuthToken_def)

lemma keeps_comparePassword: "keeps E (comparePassword E d p) (\<lambda>_. True)"
  by (rule keeps_frame) (simp add: comparePassword_def split: option.splits)

lemma session_json_no_password: "\<not> has_key ''password'' (session_json token customer)"
  by (cases "stripeCustomerId (doc customer)") (simp_all add: session_json_def)

lemma toJSON_no_password: "\<not> has_key ''password'' (toJSON d)"
  by (cases "c_password (doc d)"; cases "stripeCustomerId (doc d)";
      cases "profilePictureUrl (doc d)")
     (simp_all add: toJSON_def transform_def delete_key_def toObject_def)

lemma keeps_register: "keeps E (authController_register E b) safe"
  unfolding authController_register_def
  apply (rule keeps_and_then [OF keeps_findOne])
  apply (auto intro!: keeps_throw)
  apply (rule keeps_and_then [OF keeps_createCustomer])
  apply (rule keeps_try_catch)
   apply (rule keeps_db_arg)
   apply (rule keeps_and_then [OF keeps_save_new])
   apply (rule keeps_and_then [OF keeps_generateAuthToken])
   apply (rule keeps_and_then [OF keeps_logger_info])
   apply (rule keeps_return)
   apply (simp add: safe_def session_json_no_password)
  apply (rule keeps_and_then [OF keeps_deleteCustomer])
  apply (rule keeps_throw)
  done

lemma keeps_login: "keeps E (authController_login E email password) safe"
  unfolding authController_login_def
  apply (rule keeps_and_then [OF keeps_findOne])
  apply (auto split: option.splits intro!: keeps_throw)
  apply (rule keeps_and_then [OF keeps_comparePassword])
  apply (auto intro!: keeps_throw)
  apply (rule keeps_and_then [OF keeps_generateAuthToken])
  apply (rule keeps_and_then [OF keeps_logger_info])
  apply (rule keeps_return)
  apply (simp add: safe_def session_json_no_password)
  done


lemma error_response_safe: "safe (error_response code msg)"
  by (simp add: safe_def error_response_def)

lemma keeps_jwt_verify: "keeps E (jwt_verify_io E token) (\<lambda>_. True)"
  by (rule keeps_frame) (simp add: jwt_verify_io_def)

lemma keeps_authenticateToken: "keeps E (authenticateToken E authorization) outcome_ok"
  unfolding authenticateToken_def
  apply (rule keeps_try_catch)
   apply (auto split: option.splits intro!: keeps_return simp: error_response_safe)[1]
   apply (rule keeps_and_then [OF keeps_jwt_verify])
   apply (rule keeps_and_then [OF keeps_findById])
   apply (auto split: option.splits intro!: keeps_return simp: error_response_safe stripped_def)[1]
  apply (auto intro!: keeps_return simp: error_response_safe)
  apply (rule keeps_and_then [OF keeps_logger_error])
  apply (auto intro!: keeps_return simp: error_response_safe)
  done

lemma keeps_authenticated:
  assumes "\<And>c. stripped c \<Longrightarrow> keeps E (handler (Some c)) safe"
  shows "keeps E (authenticated E authorization handler) safe"
  unfolding authenticated_def
  apply (rule keeps_and_then [OF keeps_authenticateToken])
  subgoal for outcome
    by (cases outcome) (auto intro!: keeps_return assms)
  done

lemma keeps_getProfile: "keeps E (getProfile E rc) safe"
  unfolding getProfile_def
  by (auto split: option.splits intro!: keeps_return keeps_throw
      simp: safe_def profile_json_def toJSON_no_password)

lemma assign_path_stripped:
  "key \<noteq> ''password'' \<Longrightarrow> \<not> isNew d \<and> ''password'' \<notin> set (modifiedPaths d) \<Longrightarrow>
   \<not> isNew (assign_path key get put updates d)
   \<and> ''password'' \<notin> set (modifiedPaths (assign_path key get put updates d))"
  by (auto simp: assign_path_def split: option.splits)

lemma Object_assign_stripped:
  "stripped c \<Longrightarrow> \<not> isNew (Object_assign c updates)
     \<and> ''password'' \<notin> set (modifiedPaths (Object_assign c updates))"
  unfolding Object_assign_def stripped_def
  by (intro assign_path_stripped) simp_all

lemma keeps_updateProfile:
  assumes "stripped c"
  shows "keeps E (updateProfile E (Some c) b) safe"
  unfolding updateProfile_def Let_def option.case
  apply (rule keeps_and_then [OF keeps_save_loaded])
  using Object_assign_stripped [OF assms] apply simp
  using Object_assign_stripped [OF assms] apply simp
  apply (rule keeps_and_then [where Q = "\<lambda>_. True"])
   apply (auto intro!: keeps_return keeps_and_then [OF keeps_updateCustomer])[1]
  apply (rule keeps_and_then [OF keeps_logger_info])
  apply (rule keeps_return)
  apply (simp add: safe_def profile_json_def toJSON_no_password)
  done

lemma keeps_uploadProfilePicture:
  assumes "stripped c"
  shows "keeps E (uploadProfilePicture E (Some c) f) safe"
  unfolding uploadProfilePicture_def
  apply (cases f)
   apply (simp add: keeps_throw)
  apply (simp only: option.case)
  apply (rule keeps_and_then [where Q = "\<lambda>_. True"])
   apply (auto split: option.splits intro!: keeps_return keeps_deleteFile)[1]
  apply (rule keeps_and_then [OF keeps_uploadFile])
  apply (rule keeps_and_then [OF keeps_save_loaded])
  using assms apply (simp add: stripped_def)
  using assms apply (simp add: stripped_def)
  apply (rule keeps_and_then [OF keeps_logger_info])
  apply (rule keeps_return)
  apply (simp add: safe_def)
  done

lemma keeps_deleteAccount: "keeps E (deleteAccount E (Some c)) safe"
  unfolding deleteAccount_def option.case
  apply (rule keeps_and_then [where Q = "\<lambda>_. True"])
   apply (auto split: option.splits intro!: keeps_return keeps_deleteCustomer)[1]
  apply (rule keeps_and_then [where Q = "\<lambda>_. True"])
   apply (auto split: option.splits intro!: keeps_return keeps_deleteFile)[1]
  apply (rule keeps_and_then [OF keeps_findByIdAndDelete])
  apply (rule keeps_and_then [OF keeps_logger_info])
  apply (rule keeps_return)
  apply (simp add: safe_def)
  done

lemma keeps_handle: "keeps E (handle E req) safe"
  by (cases req)
     (auto intro!: keeps_register keeps_login keeps_authenticated keeps_getProfile
        keeps_updateProfile keeps_uploadProfilePicture keeps_deleteAccount)

lemma reachable_hashed: "reachable E w \<Longrightarrow> credentials_hashed E (db w)"
proof (induction rule: reachable.induct)
  case (start w)
  then show ?case by (simp add: credentials_hashed_def)
next
  case (step w req)
  with keeps_handle [of E req] show ?case by (simp add: keeps_def)
qed

text \<open>
  C10. In every world reachable from an empty collection by registration, login,
  profile read and update, picture upload and account deletion: every stored password
  is a bcrypt hash; no response has a \<open>password\<close> key in it; and the customer that
  \<open>authenticateToken\<close> loads carries no password.
\<close>

theorem password_never_exposed:
  assumes "reachable E w"
  shows "credentials_hashed E (db w) \<and>
         (\<forall>req r. fst (handle E req w) = Inr r \<longrightarrow> \<not> has_key ''password'' (body r)) \<and>
         (\<forall>authorization c token.
            fst (authenticateToken E authorization w) = Inr (Next c token)
              \<longrightarrow> c_password (doc c) = None)"
proof (intro conjI allI impI)
  from assms show inv: "credentials_hashed E (db w)" by (rule reachable_hashed)
  fix req r assume "fst (handle E req w) = Inr r"
  with keeps_handle [of E req] inv show "\<not> has_key ''password'' (body r)"
    by (auto simp: keeps_def safe_def)
next
  fix authorization c token
  assume "fst (authenticateToken E authorization w) = Inr (Next c token)"
  with keeps_authenticateToken [of E authorization] reachable_hashed [OF assms]
  have "outcome_ok (Next c token)" by (auto simp: keeps_def)
  then show "c_password (doc c) = None" by (simp add: stripped_def)
qed

theorem password_never_exposed_witness:
  "reachable example_env
     (snd (handle example_env (Register example_registration) empty_world)) \<and>
   db (snd (handle example_env (Register example_registration) empty_world))
     = [example_stored] \<and>
   credentials_hashed example_env [example_stored]"
proof -
  have r: "reachable example_env
             (snd (handle example_env (Register example_registration) empty_world))"
    by (intro reachable.step reachable.start) (simp add: empty_world_def)
  have d: "db (snd (handle example_env (Register example_registration) empty_world))
             = [example_stored]"
    by (simp add: register_defs new_Customer_def pre_save_def duplicate_key_def
        generateAuthToken_def example_env_def example_registration_def example_stored_def
        empty_world_def object_def trim_def lowercase_def is_space_def lower_char_def)
  from password_never_exposed [OF r] d r show ?thesis by simp
qed

end
